theory Spec2Isabelle
  imports Main
begin

section \<open>Strings and the Unicode operations of the JavaScript runtime\<close>

text \<open>
  A JavaScript string is a sequence of UTF-16 code units. It is modelled as the list of its
  Unicode code points: a surrogate pair is the one code point it encodes, and a surrogate
  without its partner is a code point of its own, U+D800 up to U+DFFF. A text is well formed
  when it holds no such unpaired surrogate.

  The regular expressions and replacements of the program have no \<^verbatim>\<open>u\<close> flag and work
  on code units. Every code point that they mention lies in the Basic Multilingual Plane
  and is no surrogate, so on a well-formed text they remove or replace whole code points,
  as the model does. On a text with unpaired surrogates the program can differ from the
  model: when it removes a mark that stands between two unpaired surrogates, the two become
  a surrogate pair, one code point, which the model keeps apart. A statement about the
  normal form of every text is therefore made for well-formed texts.
\<close>

type_synonym codepoint = nat
type_synonym ustring = "codepoint list"

definition well_formed :: "ustring \<Rightarrow> bool" where
  "well_formed s \<longleftrightarrow> (\<forall>c \<in> set s. \<not> (0xD800 \<le> c \<and> c \<le> 0xDFFF))"

text \<open>
  The program calls two built-ins of the runtime that depend on the Unicode Character
  Database: \<^verbatim>\<open>String.prototype.toLowerCase\<close> and
  \<^verbatim>\<open>String.prototype.normalize('NFD')\<close>. They are not code of the repository, so
  the model takes them as a parameter: the lower-casing function as it is, and for NFD the two
  tables that Unicode Standard Annex 15 builds it from, the full canonical decomposition of a
  code point and its canonical combining class.
\<close>

record runtime =
  toLowerCase :: "ustring \<Rightarrow> ustring"
  decomposition :: "codepoint \<Rightarrow> ustring"
  combining_class :: "codepoint \<Rightarrow> nat"

text \<open>
  Canonical ordering: every maximal run of code points with a non-zero combining class is
  sorted by combining class, stably. \<open>insert_mark\<close> moves one mark to its place at the
  front of an ordered text; it never passes a starter (class 0) or a mark of the same class.
\<close>

fun insert_mark :: "(codepoint \<Rightarrow> nat) \<Rightarrow> codepoint \<Rightarrow> ustring \<Rightarrow> ustring" where
  "insert_mark cc c [] = [c]"
| "insert_mark cc c (x # xs) =
     (if cc x \<noteq> 0 \<and> cc x < cc c then x # insert_mark cc c xs else c # x # xs)"

fun canonical_order :: "(codepoint \<Rightarrow> nat) \<Rightarrow> ustring \<Rightarrow> ustring" where
  "canonical_order cc [] = []"
| "canonical_order cc (c # cs) =
     (if cc c = 0 then c # canonical_order cc cs
      else insert_mark cc c (canonical_order cc cs))"

definition normalize_NFD :: "runtime \<Rightarrow> ustring \<Rightarrow> ustring" where
  "normalize_NFD R text =
     canonical_order (combining_class R) (concat (map (decomposition R) text))"

text \<open>\<^verbatim>\<open>text.replace(/x/g, 'y')\<close> for single code points \<open>x\<close> and \<open>y\<close>.\<close>

definition replace_all :: "codepoint \<Rightarrow> codepoint \<Rightarrow> ustring \<Rightarrow> ustring" where
  "replace_all x y text = map (\<lambda>c. if c = x then y else c) text"

text \<open>The character class of the regular expression: U+0300 up to U+036F.\<close>

definition combining_diacritical :: "codepoint \<Rightarrow> bool" where
  "combining_diacritical c \<longleftrightarrow> 0x300 \<le> c \<and> c \<le> 0x36F"

text \<open>
  \<^verbatim>\<open>WordChecker.normalizeVietnamese\<close>: NFD, then the combining marks U+0300..U+036F are
  removed, then U+0111 (d with stroke) becomes \<open>d\<close> and U+0110 becomes \<open>D\<close>. The
  definition is the program on well-formed texts; see the note on unpaired surrogates above.
\<close>

definition normalizeVietnamese :: "runtime \<Rightarrow> ustring \<Rightarrow> ustring" where
  "normalizeVietnamese R text =
     replace_all 0x110 0x44
       (replace_all 0x111 0x64
         (filter (\<lambda>c. \<not> combining_diacritical c) (normalize_NFD R text)))"

text \<open>
  \<^verbatim>\<open>NextWordFinder.normalizeVietnamese\<close> is a second, private copy of the same four
  steps.
\<close>

definition NextWordFinder_normalizeVietnamese :: "runtime \<Rightarrow> ustring \<Rightarrow> ustring" where
  "NextWordFinder_normalizeVietnamese R text =
     replace_all 0x110 0x44
       (replace_all 0x111 0x64
         (filter (\<lambda>c. \<not> combining_diacritical c) (normalize_NFD R text)))"

subsection \<open>The runtime on the Vietnamese alphabet\<close>

text \<open>
  A concrete runtime for evaluating the program on concrete inputs. Its tables are the
  entries of the Unicode Character Database for Basic Latin, the precomposed letters of the
  Vietnamese alphabet in both cases, the block Combining Diacritical Marks (U+0300..U+036F)
  and the two Hebrew marks U+0591 and U+05B0. A code point outside these tables is taken to
  be a starter that is its own decomposition and its own lower case, so this runtime agrees
  with the real one on texts over the listed code points only.
\<close>

definition decomposition_table :: "(codepoint \<times> ustring) list" where
  "decomposition_table = [
     (0xC0, [0x41, 0x300]), (0xC1, [0x41, 0x301]), (0xC2, [0x41, 0x302]),
     (0xC3, [0x41, 0x303]), (0xC8, [0x45, 0x300]), (0xC9, [0x45, 0x301]),
     (0xCA, [0x45, 0x302]), (0xCC, [0x49, 0x300]), (0xCD, [0x49, 0x301]),
     (0xD2, [0x4F, 0x300]), (0xD3, [0x4F, 0x301]), (0xD4, [0x4F, 0x302]),
     (0xD5, [0x4F, 0x303]), (0xD9, [0x55, 0x300]), (0xDA, [0x55, 0x301]),
     (0xDD, [0x59, 0x301]), (0xE0, [0x61, 0x300]), (0xE1, [0x61, 0x301]),
     (0xE2, [0x61, 0x302]), (0xE3, [0x61, 0x303]), (0xE8, [0x65, 0x300]),
     (0xE9, [0x65, 0x301]), (0xEA, [0x65, 0x302]), (0xEC, [0x69, 0x300]),
     (0xED, [0x69, 0x301]), (0xF2, [0x6F, 0x300]), (0xF3, [0x6F, 0x301]),
     (0xF4, [0x6F, 0x302]), (0xF5, [0x6F, 0x303]), (0xF9, [0x75, 0x300]),
     (0xFA, [0x75, 0x301]), (0xFD, [0x79, 0x301]), (0x102, [0x41, 0x306]),
     (0x103, [0x61, 0x306]), (0x128, [0x49, 0x303]), (0x129, [0x69, 0x303]),
     (0x168, [0x55, 0x303]), (0x169, [0x75, 0x303]), (0x1A0, [0x4F, 0x31B]),
     (0x1A1, [0x6F, 0x31B]), (0x1AF, [0x55, 0x31B]), (0x1B0, [0x75, 0x31B]),
     (0x1EA0, [0x41, 0x323]), (0x1EA1, [0x61, 0x323]), (0x1EA2, [0x41, 0x309]),
     (0x1EA3, [0x61, 0x309]), (0x1EA4, [0x41, 0x302, 0x301]),
     (0x1EA5, [0x61, 0x302, 0x301]), (0x1EA6, [0x41, 0x302, 0x300]),
     (0x1EA7, [0x61, 0x302, 0x300]), (0x1EA8, [0x41, 0x302, 0x309]),
     (0x1EA9, [0x61, 0x302, 0x309]), (0x1EAA, [0x41, 0x302, 0x303]),
     (0x1EAB, [0x61, 0x302, 0x303]), (0x1EAC, [0x41, 0x323, 0x302]),
     (0x1EAD, [0x61, 0x323, 0x302]), (0x1EAE, [0x41, 0x306, 0x301]),
     (0x1EAF, [0x61, 0x306, 0x301]), (0x1EB0, [0x41, 0x306, 0x300]),
     (0x1EB1, [0x61, 0x306, 0x300]), (0x1EB2, [0x41, 0x306, 0x309]),
     (0x1EB3, [0x61, 0x306, 0x309]), (0x1EB4, [0x41, 0x306, 0x303]),
     (0x1EB5, [0x61, 0x306, 0x303]), (0x1EB6, [0x41, 0x323, 0x306]),
     (0x1EB7, [0x61, 0x323, 0x306]), (0x1EB8, [0x45, 0x323]), (0x1EB9, [0x65, 0x323]),
     (0x1EBA, [0x45, 0x309]), (0x1EBB, [0x65, 0x309]), (0x1EBC, [0x45, 0x303]),
     (0x1EBD, [0x65, 0x303]), (0x1EBE, [0x45, 0x302, 0x301]),
     (0x1EBF, [0x65, 0x302, 0x301]), (0x1EC0, [0x45, 0x302, 0x300]),
     (0x1EC1, [0x65, 0x302, 0x300]), (0x1EC2, [0x45, 0x302, 0x309]),
     (0x1EC3, [0x65, 0x302, 0x309]), (0x1EC4, [0x45, 0x302, 0x303]),
     (0x1EC5, [0x65, 0x302, 0x303]), (0x1EC6, [0x45, 0x323, 0x302]),
     (0x1EC7, [0x65, 0x323, 0x302]), (0x1EC8, [0x49, 0x309]), (0x1EC9, [0x69, 0x309]),
     (0x1ECA, [0x49, 0x323]), (0x1ECB, [0x69, 0x323]), (0x1ECC, [0x4F, 0x323]),
     (0x1ECD, [0x6F, 0x323]), (0x1ECE, [0x4F, 0x309]), (0x1ECF, [0x6F, 0x309]),
     (0x1ED0, [0x4F, 0x302, 0x301]), (0x1ED1, [0x6F, 0x302, 0x301]),
     (0x1ED2, [0x4F, 0x302, 0x300]), (0x1ED3, [0x6F, 0x302, 0x300]),
     (0x1ED4, [0x4F, 0x302, 0x309]), (0x1ED5, [0x6F, 0x302, 0x309]),
     (0x1ED6, [0x4F, 0x302, 0x303]), (0x1ED7, [0x6F, 0x302, 0x303]),
     (0x1ED8, [0x4F, 0x323, 0x302]), (0x1ED9, [0x6F, 0x323, 0x302]),
     (0x1EDA, [0x4F, 0x31B, 0x301]), (0x1EDB, [0x6F, 0x31B, 0x301]),
     (0x1EDC, [0x4F, 0x31B, 0x300]), (0x1EDD, [0x6F, 0x31B, 0x300]),
     (0x1EDE, [0x4F, 0x31B, 0x309]), (0x1EDF, [0x6F, 0x31B, 0x309]),
     (0x1EE0, [0x4F, 0x31B, 0x303]), (0x1EE1, [0x6F, 0x31B, 0x303]),
     (0x1EE2, [0x4F, 0x31B, 0x323]), (0x1EE3, [0x6F, 0x31B, 0x323]),
     (0x1EE4, [0x55, 0x323]), (0x1EE5, [0x75, 0x323]), (0x1EE6, [0x55, 0x309]),
     (0x1EE7, [0x75, 0x309]), (0x1EE8, [0x55, 0x31B, 0x301]),
     (0x1EE9, [0x75, 0x31B, 0x301]), (0x1EEA, [0x55, 0x31B, 0x300]),
     (0x1EEB, [0x75, 0x31B, 0x300]), (0x1EEC, [0x55, 0x31B, 0x309]),
     (0x1EED, [0x75, 0x31B, 0x309]), (0x1EEE, [0x55, 0x31B, 0x303]),
     (0x1EEF, [0x75, 0x31B, 0x303]), (0x1EF0, [0x55, 0x31B, 0x323]),
     (0x1EF1, [0x75, 0x31B, 0x323]), (0x1EF2, [0x59, 0x300]), (0x1EF3, [0x79, 0x300]),
     (0x1EF4, [0x59, 0x323]), (0x1EF5, [0x79, 0x323]), (0x1EF6, [0x59, 0x309]),
     (0x1EF7, [0x79, 0x309]), (0x1EF8, [0x59, 0x303]), (0x1EF9, [0x79, 0x303])]"

definition lowercase_table :: "(codepoint \<times> codepoint) list" where
  "lowercase_table = [
     (0xC0, 0xE0), (0xC1, 0xE1), (0xC2, 0xE2), (0xC3, 0xE3), (0xC8, 0xE8), (0xC9, 0xE9),
     (0xCA, 0xEA), (0xCC, 0xEC), (0xCD, 0xED), (0xD2, 0xF2), (0xD3, 0xF3), (0xD4, 0xF4),
     (0xD5, 0xF5), (0xD9, 0xF9), (0xDA, 0xFA), (0xDD, 0xFD), (0x102, 0x103),
     (0x110, 0x111), (0x128, 0x129), (0x168, 0x169), (0x1A0, 0x1A1), (0x1AF, 0x1B0),
     (0x1EA0, 0x1EA1), (0x1EA2, 0x1EA3), (0x1EA4, 0x1EA5), (0x1EA6, 0x1EA7),
     (0x1EA8, 0x1EA9), (0x1EAA, 0x1EAB), (0x1EAC, 0x1EAD), (0x1EAE, 0x1EAF),
     (0x1EB0, 0x1EB1), (0x1EB2, 0x1EB3), (0x1EB4, 0x1EB5), (0x1EB6, 0x1EB7),
     (0x1EB8, 0x1EB9), (0x1EBA, 0x1EBB), (0x1EBC, 0x1EBD), (0x1EBE, 0x1EBF),
     (0x1EC0, 0x1EC1), (0x1EC2, 0x1EC3), (0x1EC4, 0x1EC5), (0x1EC6, 0x1EC7),
     (0x1EC8, 0x1EC9), (0x1ECA, 0x1ECB), (0x1ECC, 0x1ECD), (0x1ECE, 0x1ECF),
     (0x1ED0, 0x1ED1), (0x1ED2, 0x1ED3), (0x1ED4, 0x1ED5), (0x1ED6, 0x1ED7),
     (0x1ED8, 0x1ED9), (0x1EDA, 0x1EDB), (0x1EDC, 0x1EDD), (0x1EDE, 0x1EDF),
     (0x1EE0, 0x1EE1), (0x1EE2, 0x1EE3), (0x1EE4, 0x1EE5), (0x1EE6, 0x1EE7),
     (0x1EE8, 0x1EE9), (0x1EEA, 0x1EEB), (0x1EEC, 0x1EED), (0x1EEE, 0x1EEF),
     (0x1EF0, 0x1EF1), (0x1EF2, 0x1EF3), (0x1EF4, 0x1EF5), (0x1EF6, 0x1EF7),
     (0x1EF8, 0x1EF9)]"

text \<open>
  Intervals \<open>(first, last, class)\<close> of the marks in U+0300..U+036F whose class is
  neither 0 nor 230. U+034F is the one starter of the block; every other mark of the block
  has class 230.
\<close>

definition combining_class_table :: "(codepoint \<times> codepoint \<times> nat) list" where
  "combining_class_table = [
     (0x315, 0x315, 232), (0x316, 0x319, 220), (0x31A, 0x31A, 232), (0x31B, 0x31B, 216),
     (0x31C, 0x320, 220), (0x321, 0x322, 202), (0x323, 0x326, 220), (0x327, 0x328, 202),
     (0x329, 0x333, 220), (0x334, 0x338, 1), (0x339, 0x33C, 220), (0x345, 0x345, 240),
     (0x347, 0x349, 220), (0x34D, 0x34E, 220), (0x353, 0x356, 220), (0x358, 0x358, 232),
     (0x359, 0x35A, 220), (0x35C, 0x35C, 233), (0x35D, 0x35E, 234), (0x35F, 0x35F, 233),
     (0x360, 0x361, 234), (0x362, 0x362, 233)]"

definition js_decomposition :: "codepoint \<Rightarrow> ustring" where
  "js_decomposition c = (case map_of decomposition_table c of None \<Rightarrow> [c] | Some d \<Rightarrow> d)"

definition js_combining_class :: "codepoint \<Rightarrow> nat" where
  "js_combining_class c =
     (if c = 0x34F then 0
      else if combining_diacritical c then
        (case find (\<lambda>(lo, hi, k). lo \<le> c \<and> c \<le> hi) combining_class_table of
           None \<Rightarrow> 230 | Some (lo, hi, k) \<Rightarrow> k)
      else if c = 0x591 then 220
      else if c = 0x5B0 then 10
      else 0)"

definition js_lower :: "codepoint \<Rightarrow> codepoint" where
  "js_lower c =
     (if 0x41 \<le> c \<and> c \<le> 0x5A then c + 0x20
      else case map_of lowercase_table c of None \<Rightarrow> c | Some l \<Rightarrow> l)"

definition js_runtime :: runtime where
  "js_runtime = \<lparr> toLowerCase = map js_lower, decomposition = js_decomposition,
     combining_class = js_combining_class \<rparr>"

text \<open>
  The properties of the Unicode tables that the normaliser relies on: a full decomposition
  cannot be decomposed further; among U+0300..U+036F only U+034F (combining grapheme
  joiner) is a starter, and no other code point decomposes into it; the letters \<open>d\<close>,
  \<open>D\<close>, U+0111 and U+0110 are starters, the first two without a decomposition.
\<close>

definition canonical_tables :: "runtime \<Rightarrow> bool" where
  "canonical_tables R \<longleftrightarrow>
     (\<forall>c. \<forall>x \<in> set (decomposition R c). decomposition R x = [x]) \<and>
     (\<forall>c. combining_diacritical c \<and> c \<noteq> 0x34F \<longrightarrow> combining_class R c \<noteq> 0) \<and>
     (\<forall>c. 0x34F \<in> set (decomposition R c) \<longrightarrow> c = 0x34F) \<and>
     decomposition R 0x64 = [0x64] \<and> decomposition R 0x44 = [0x44] \<and>
     combining_class R 0x64 = 0 \<and> combining_class R 0x44 = 0 \<and>
     combining_class R 0x111 = 0 \<and> combining_class R 0x110 = 0"

text \<open>A text is in canonical order when no mark follows a mark of a greater class.\<close>

fun canonically_ordered :: "(codepoint \<Rightarrow> nat) \<Rightarrow> ustring \<Rightarrow> bool" where
  "canonically_ordered cc [] = True"
| "canonically_ordered cc [x] = True"
| "canonically_ordered cc (x # y # zs) =
     ((cc y = 0 \<or> cc x \<le> cc y) \<and> canonically_ordered cc (y # zs))"

section \<open>Data model\<close>

record WordPair =
  first :: ustring
  second :: ustring

text \<open>
  \<^verbatim>\<open>WordDictionary\<close> is an object whose property values are string arrays. The model is
  the list \<^verbatim>\<open>Object.entries(dictionary)\<close>, in the order in which the runtime enumerates
  the properties; the keys of an object are pairwise distinct.
\<close>

type_synonym WordDictionary = "(ustring \<times> ustring list) list"

datatype Reason = invalid_format | word_not_found | word_used | no_connection | invalid_characters

text \<open>Optional properties are \<open>None\<close> when the object literal leaves them out.\<close>

record ValidationResult =
  isValid :: bool
  error :: "ustring option"
  reason :: "Reason option"

record NextWordResult =
  word :: "WordPair option"
  found :: bool
  alternatives :: "WordPair list option"

record WordChecker =
  dictionary :: WordDictionary
  normalizedDictionary :: "ustring \<rightharpoonup> ustring list"

record NextWordFinder =
  finder_dictionary :: WordDictionary
  wordChecker :: WordChecker

section \<open>WordChecker\<close>

text \<open>
  The constructor walks \<^verbatim>\<open>Object.entries(dictionary)\<close> and calls \<^verbatim>\<open>Map.set\<close> for every
  entry; \<^verbatim>\<open>Map.set\<close> replaces the value of a key that is already present.
\<close>

definition WordChecker_constructor :: "runtime \<Rightarrow> WordDictionary \<Rightarrow> WordChecker" where
  "WordChecker_constructor R dict =
     \<lparr> dictionary = dict,
       normalizedDictionary =
         fold (\<lambda>(key, values) m.
                 m(normalizeVietnamese R (toLowerCase R key) \<mapsto> map (toLowerCase R) values))
              dict Map.empty \<rparr>"

subsection \<open>Format validation\<close>

text \<open>
  The code points that \<^verbatim>\<open>String.prototype.trim\<close> removes and that \<^verbatim>\<open>\s\<close> matches:
  the white space and line terminator code points of ECMAScript.
\<close>

definition isWhiteSpace :: "codepoint \<Rightarrow> bool" where
  "isWhiteSpace c \<longleftrightarrow>
     c \<in> {0x9, 0xA, 0xB, 0xC, 0xD, 0x20, 0xA0, 0x1680, 0x2028, 0x2029, 0x202F, 0x205F,
          0x3000, 0xFEFF} \<or> (0x2000 \<le> c \<and> c \<le> 0x200A)"

definition trim :: "ustring \<Rightarrow> ustring" where
  "trim s = rev (dropWhile isWhiteSpace (rev (dropWhile isWhiteSpace s)))"

text \<open>
  \<^verbatim>\<open>s.split(/\s+/)\<close>: the pieces of \<open>s\<close> between the maximal runs of white space. A
  run at the start or at the end of \<open>s\<close> leaves an empty piece there, and the empty string
  splits into one empty piece. \<open>tok\<close> is the piece read so far.
\<close>

function split_from :: "ustring \<Rightarrow> ustring \<Rightarrow> ustring list" where
  "split_from tok [] = [tok]"
| "split_from tok (c # cs) =
     (if isWhiteSpace c then tok # split_from [] (dropWhile isWhiteSpace cs)
      else split_from (tok @ [c]) cs)"
  by pat_completeness auto
termination
  by (relation "measure (\<lambda>(tok, s). length s)") (auto simp: less_Suc_eq_le length_dropWhile_le)

definition split_whitespace :: "ustring \<Rightarrow> ustring list" where
  "split_whitespace s = split_from [] s"

text \<open>
  The accented letters listed in the character class of \<^verbatim>\<open>vietnameseRegex\<close>, in the order of
  the source: lower case only, every one a single precomposed code point.
\<close>

definition vietnamese_letters :: "codepoint list" where
  "vietnamese_letters = [
     0xE0, 0xE1, 0x1EA3, 0xE3, 0x1EA1, 0x103, 0x1EB1, 0x1EAF, 0x1EB3, 0x1EB5, 0x1EB7, 0xE2,
     0x1EA7, 0x1EA5, 0x1EA9, 0x1EAB, 0x1EAD, 0x111, 0xE8, 0xE9, 0x1EBB, 0x1EBD, 0x1EB9,
     0xEA, 0x1EC1, 0x1EBF, 0x1EC3, 0x1EC5, 0x1EC7, 0xEC, 0xED, 0x1EC9, 0x129, 0x1ECB, 0xF2,
     0xF3, 0x1ECF, 0xF5, 0x1ECD, 0xF4, 0x1ED3, 0x1ED1, 0x1ED5, 0x1ED7, 0x1ED9, 0x1A1,
     0x1EDD, 0x1EDB, 0x1EDF, 0x1EE1, 0x1EE3, 0xF9, 0xFA, 0x1EE7, 0x169, 0x1EE5, 0x1B0,
     0x1EEB, 0x1EE9, 0x1EED, 0x1EEF, 0x1EF1, 0x1EF3, 0xFD, 0x1EF7, 0x1EF9, 0x1EF5]"

text \<open>The class \<^verbatim>\<open>[a-zA-Z...\s]\<close> of \<^verbatim>\<open>vietnameseRegex\<close>.\<close>

definition vietnameseRegex_class :: "codepoint \<Rightarrow> bool" where
  "vietnameseRegex_class c \<longleftrightarrow>
     (0x61 \<le> c \<and> c \<le> 0x7A) \<or> (0x41 \<le> c \<and> c \<le> 0x5A) \<or>
     c \<in> set vietnamese_letters \<or> isWhiteSpace c"

text \<open>\<^verbatim>\<open>vietnameseRegex.test(w)\<close>: one or more code points, all of them in the class.\<close>

definition vietnameseRegex_test :: "ustring \<Rightarrow> bool" where
  "vietnameseRegex_test w \<longleftrightarrow> w \<noteq> [] \<and> list_all vietnameseRegex_class w"

text \<open>
  \<^verbatim>\<open>validateFormat\<close> returns \<^verbatim>\<open>{ isValid: false }\<close>, here \<open>None\<close>, or
  \<^verbatim>\<open>{ isValid: true, words }\<close> with exactly two words, here \<open>Some (words[0], words[1])\<close>.
\<close>

definition validateFormat :: "ustring \<Rightarrow> (ustring \<times> ustring) option" where
  "validateFormat input =
     (let trimmed = trim input in
      if trimmed = [] then None
      else case filter (\<lambda>word. length word > 0) (split_whitespace trimmed) of
             [w0, w1] \<Rightarrow>
               if \<not> vietnameseRegex_test w0 \<or> \<not> vietnameseRegex_test w1 then None
               else Some (w0, w1)
           | _ \<Rightarrow> None)"

subsection \<open>Dictionary lookup and word validation\<close>

definition isWordInDictionary :: "runtime \<Rightarrow> WordChecker \<Rightarrow> ustring \<Rightarrow> ustring \<Rightarrow> bool" where
  "isWordInDictionary R wc firstWord secondWord =
     (let normalizedFirst = normalizeVietnamese R (toLowerCase R firstWord);
          normalizedSecond = toLowerCase R secondWord
      in case normalizedDictionary wc normalizedFirst of
           None \<Rightarrow> False
         | Some secondWords \<Rightarrow> normalizedSecond \<in> set secondWords)"

text \<open>The texts of the error messages, as the code points of the string literals.\<close>

definition msg_invalid_format :: ustring where
  "msg_invalid_format = [
     0x54, 0x1EEB, 0x20, 0x70, 0x68, 0x1EA3, 0x69, 0x20, 0x67, 0x1ED3, 0x6D, 0x20, 0x111,
     0xFA, 0x6E, 0x67, 0x20, 0x32, 0x20, 0x63, 0x68, 0x1EEF, 0x20, 0x63, 0xE1, 0x63, 0x68,
     0x20, 0x6E, 0x68, 0x61, 0x75, 0x20, 0x62, 0x1EDF, 0x69, 0x20, 0x64, 0x1EA5, 0x75,
     0x20, 0x63, 0xE1, 0x63, 0x68]"

definition msg_word_used :: ustring where
  "msg_word_used = [
     0x54, 0x1EEB, 0x20, 0x6E, 0xE0, 0x79, 0x20, 0x111, 0xE3, 0x20, 0x111, 0x1B0, 0x1EE3,
     0x63, 0x20, 0x73, 0x1EED, 0x20, 0x64, 0x1EE5, 0x6E, 0x67, 0x20, 0x74, 0x72, 0x6F,
     0x6E, 0x67, 0x20, 0x67, 0x61, 0x6D, 0x65]"

definition msg_word_not_found :: "ustring \<Rightarrow> ustring \<Rightarrow> ustring" where
  "msg_word_not_found firstWord secondWord =
     [0x54, 0x1EEB, 0x20, 0x22] @ firstWord @ [0x20] @ secondWord @ [
     0x22, 0x20, 0x6B, 0x68, 0xF4, 0x6E, 0x67, 0x20, 0x63, 0xF3, 0x20, 0x74, 0x72, 0x6F,
     0x6E, 0x67, 0x20, 0x74, 0x1EEB, 0x20, 0x111, 0x69, 0x1EC3, 0x6E]"

definition msg_no_connection :: "WordPair \<Rightarrow> WordPair \<Rightarrow> ustring" where
  "msg_no_connection newWord currentWord =
     [0x54, 0x1EEB, 0x20, 0x22] @ first newWord @ [0x20] @ second newWord @ [
     0x22, 0x20, 0x6B, 0x68, 0xF4, 0x6E, 0x67, 0x20, 0x6E, 0x1ED1, 0x69, 0x20, 0x111,
     0x1B0, 0x1EE3, 0x63, 0x20, 0x76, 0x1EDB, 0x69, 0x20, 0x22] @ second currentWord @ [0x22]"

text \<open>The key under which a used word is recorded: both normalised words around \<open>-\<close>.\<close>

definition wordKey :: "runtime \<Rightarrow> ustring \<Rightarrow> ustring \<Rightarrow> ustring" where
  "wordKey R firstWord secondWord =
     normalizeVietnamese R (toLowerCase R firstWord) @ [0x2D] @
     normalizeVietnamese R (toLowerCase R secondWord)"

definition validateWord ::
  "runtime \<Rightarrow> WordChecker \<Rightarrow> ustring \<Rightarrow> ustring set \<Rightarrow> ValidationResult" where
  "validateWord R wc input usedWords =
     (case validateFormat input of
        None \<Rightarrow>
          \<lparr> isValid = False, error = Some msg_invalid_format, reason = Some invalid_format \<rparr>
      | Some (firstWord, secondWord) \<Rightarrow>
          if \<not> isWordInDictionary R wc firstWord secondWord then
            \<lparr> isValid = False, error = Some (msg_word_not_found firstWord secondWord),
              reason = Some word_not_found \<rparr>
          else if wordKey R firstWord secondWord \<in> usedWords then
            \<lparr> isValid = False, error = Some msg_word_used, reason = Some word_used \<rparr>
          else \<lparr> isValid = True, error = None, reason = None \<rparr>)"

subsection \<open>Connections\<close>

definition canConnect :: "runtime \<Rightarrow> WordPair \<Rightarrow> WordPair \<Rightarrow> bool" where
  "canConnect R firstPair secondPair =
     (let firstEnd = normalizeVietnamese R (toLowerCase R (second firstPair));
          secondStart = normalizeVietnamese R (toLowerCase R (first secondPair))
      in firstEnd = secondStart)"

text \<open>
  The two nested loops of \<^verbatim>\<open>getPossibleNextWords\<close> over the entries of the dictionary and
  over the second words of an entry; \<^verbatim>\<open>push\<close> appends at the end.
\<close>

definition getPossibleNextWords :: "runtime \<Rightarrow> WordChecker \<Rightarrow> ustring \<Rightarrow> WordPair list" where
  "getPossibleNextWords R wc endingWord =
     (let normalizedEnding = normalizeVietnamese R (toLowerCase R endingWord) in
      fold (\<lambda>(firstWord, secondWords) possiblePairs.
              if normalizeVietnamese R (toLowerCase R firstWord) = normalizedEnding then
                fold (\<lambda>secondWord pairs. pairs @ [\<lparr> first = firstWord, second = secondWord \<rparr>])
                     secondWords possiblePairs
              else possiblePairs)
           (dictionary wc) [])"

definition validateConnection ::
  "runtime \<Rightarrow> WordChecker \<Rightarrow> WordPair option \<Rightarrow> WordPair \<Rightarrow> ValidationResult" where
  "validateConnection R wc currentWord newWord =
     (case currentWord of
        None \<Rightarrow> \<lparr> isValid = True, error = None, reason = None \<rparr>
      | Some current \<Rightarrow>
          if \<not> canConnect R current newWord then
            \<lparr> isValid = False, error = Some (msg_no_connection newWord current),
              reason = Some no_connection \<rparr>
          else \<lparr> isValid = True, error = None, reason = None \<rparr>)"

section \<open>NextWordFinder\<close>

definition NextWordFinder_constructor :: "runtime \<Rightarrow> WordDictionary \<Rightarrow> NextWordFinder" where
  "NextWordFinder_constructor R dict =
     \<lparr> finder_dictionary = dict, wordChecker = WordChecker_constructor R dict \<rparr>"

text \<open>
  \<^verbatim>\<open>Math.floor(Math.random() * n)\<close>: \<^verbatim>\<open>Math.random()\<close> returns a number of the interval
  from 0 up to, not including, 1, so the result is an index below \<open>n\<close>. The draw is a
  parameter \<open>r\<close> of the model, reduced modulo \<open>n\<close>: as \<open>r\<close> ranges over the naturals,
  \<open>random_index r n\<close> ranges over exactly the indices below \<open>n\<close>.
\<close>

definition random_index :: "nat \<Rightarrow> nat \<Rightarrow> nat" where
  "random_index r n = r mod n"

definition findFirstWord :: "NextWordFinder \<Rightarrow> nat \<Rightarrow> nat \<Rightarrow> NextWordResult" where
  "findFirstWord f r1 r2 =
     (let allWords = map fst (finder_dictionary f) in
      if length allWords = 0 then \<lparr> word = None, found = False, alternatives = None \<rparr>
      else
        let randomFirstWord = allWords ! random_index r1 (length allWords) in
        case map_of (finder_dictionary f) randomFirstWord of
          None \<Rightarrow> \<lparr> word = None, found = False, alternatives = None \<rparr>
        | Some secondWords \<Rightarrow>
            if length secondWords = 0 then \<lparr> word = None, found = False, alternatives = None \<rparr>
            else
              let randomSecondWord = secondWords ! random_index r2 (length secondWords) in
              \<lparr> word = Some \<lparr> first = randomFirstWord, second = randomSecondWord \<rparr>,
                found = True, alternatives = None \<rparr>)"

text \<open>The test of the \<^verbatim>\<open>filter\<close> callback: is \<open>w\<close> already in the history?\<close>

definition inHistory :: "runtime \<Rightarrow> WordPair list \<Rightarrow> WordPair \<Rightarrow> bool" where
  "inHistory R history w =
     list_ex (\<lambda>historyWord.
        NextWordFinder_normalizeVietnamese R (toLowerCase R (first historyWord)) =
          NextWordFinder_normalizeVietnamese R (toLowerCase R (first w)) \<and>
        NextWordFinder_normalizeVietnamese R (toLowerCase R (second historyWord)) =
          NextWordFinder_normalizeVietnamese R (toLowerCase R (second w))) history"

text \<open>
  \<open>r1\<close> and \<open>r2\<close> are the draws of the random source; a call with a current word uses
  the first one only.
\<close>

definition findNextWord ::
  "runtime \<Rightarrow> NextWordFinder \<Rightarrow> nat \<Rightarrow> nat \<Rightarrow> WordPair option \<Rightarrow> WordPair list
     \<Rightarrow> NextWordResult" where
  "findNextWord R f r1 r2 currentWord history =
     (case currentWord of
        None \<Rightarrow> findFirstWord f r1 r2
      | Some current \<Rightarrow>
          let possibleWords = getPossibleNextWords R (wordChecker f) (second current) in
          if length possibleWords = 0 then \<lparr> word = None, found = False, alternatives = None \<rparr>
          else
            let availableWords = filter (\<lambda>w. \<not> inHistory R history w) possibleWords in
            if length availableWords = 0 then
              \<lparr> word = None, found = False, alternatives = Some possibleWords \<rparr>
            else
              let selectedWord =
                    availableWords ! random_index r1 (length availableWords) in
              \<lparr> word = Some selectedWord, found = True,
                alternatives = Some (take 5 availableWords) \<rparr>)"

section \<open>Evaluation on concrete inputs\<close>

text \<open>
  Look-up in an association list and membership in a list, as recursive functions that the
  simplifier can run entry by entry.
\<close>

fun table_lookup :: "(codepoint \<times> 'a) list \<Rightarrow> codepoint \<Rightarrow> 'a option" where
  "table_lookup [] k = None"
| "table_lookup ((a, b) # ps) k = (if a = k then Some b else table_lookup ps k)"

fun listed :: "codepoint list \<Rightarrow> codepoint \<Rightarrow> bool" where
  "listed [] k = False"
| "listed (a # as) k = (if a = k then True else listed as k)"

text \<open>
  The texts of the examples, as lists of code points. A name spells its words the way they
  are typed with the Telex input method: a doubled vowel carries a circumflex, \<open>w\<close> after
  a vowel is a horn or a breve, \<open>dd\<close> is the letter d with stroke, and a final \<open>s\<close>,
  \<open>f\<close>, \<open>r\<close>, \<open>x\<close> or \<open>j\<close> is the tone mark of the word (acute, grave, hook
  above, tilde, dot below). A name that starts with \<open>key\<close> is the key of a used word,
  two words around a hyphen.
\<close>

abbreviation txt_thees :: ustring where
  "txt_thees \<equiv> [0x74, 0x68, 0x1EBF]"

abbreviation txt_chaan :: ustring where
  "txt_chaan \<equiv> [0x63, 0x68, 0xE2, 0x6E]"

abbreviation txt_giowis :: ustring where
  "txt_giowis \<equiv> [0x67, 0x69, 0x1EDB, 0x69]"

abbreviation txt_thaatj :: ustring where
  "txt_thaatj \<equiv> [0x74, 0x68, 0x1EAD, 0x74]"

abbreviation txt_trowif :: ustring where
  "txt_trowif \<equiv> [0x74, 0x72, 0x1EDD, 0x69]"

abbreviation txt_xanh :: ustring where
  "txt_xanh \<equiv> [0x78, 0x61, 0x6E, 0x68]"

abbreviation txt_ddaats :: ustring where
  "txt_ddaats \<equiv> [0x111, 0x1EA5, 0x74]"

abbreviation txt_las :: ustring where
  "txt_las \<equiv> [0x6C, 0xE1]"

abbreviation txt_bieecs :: ustring where
  "txt_bieecs \<equiv> [0x62, 0x69, 0x1EBF, 0x63]"

abbreviation txt_caay :: ustring where
  "txt_caay \<equiv> [0x63, 0xE2, 0x79]"

abbreviation txt_dat :: ustring where
  "txt_dat \<equiv> [0x64, 0x61, 0x74]"

abbreviation txt_DDaats :: ustring where
  "txt_DDaats \<equiv> [0x110, 0x1EA5, 0x74]"

abbreviation txt_Dat :: ustring where
  "txt_Dat \<equiv> [0x44, 0x61, 0x74]"

abbreviation txt_hello :: ustring where
  "txt_hello \<equiv> [0x68, 0x65, 0x6C, 0x6C, 0x6F]"

abbreviation txt_world :: ustring where
  "txt_world \<equiv> [0x77, 0x6F, 0x72, 0x6C, 0x64]"

abbreviation txt_the :: ustring where
  "txt_the \<equiv> [0x74, 0x68, 0x65]"

abbreviation txt_chan :: ustring where
  "txt_chan \<equiv> [0x63, 0x68, 0x61, 0x6E]"

abbreviation txt_gioi :: ustring where
  "txt_gioi \<equiv> [0x67, 0x69, 0x6F, 0x69]"

abbreviation txt_that :: ustring where
  "txt_that \<equiv> [0x74, 0x68, 0x61, 0x74]"

abbreviation txt_troi :: ustring where
  "txt_troi \<equiv> [0x74, 0x72, 0x6F, 0x69]"

abbreviation txt_la :: ustring where
  "txt_la \<equiv> [0x6C, 0x61]"

abbreviation txt_biec :: ustring where
  "txt_biec \<equiv> [0x62, 0x69, 0x65, 0x63]"

abbreviation txt_cay :: ustring where
  "txt_cay \<equiv> [0x63, 0x61, 0x79]"

abbreviation txt_CHAN :: ustring where
  "txt_CHAN \<equiv> [0x43, 0x48, 0x41, 0x4E]"

abbreviation txt_ma :: ustring where
  "txt_ma \<equiv> [0x6D, 0x61]"

abbreviation txt_mas :: ustring where
  "txt_mas \<equiv> [0x6D, 0xE1]"

abbreviation txt_tuys :: ustring where
  "txt_tuys \<equiv> [0x74, 0xFA, 0x79]"

abbreviation txt_hoongf :: ustring where
  "txt_hoongf \<equiv> [0x68, 0x1ED3, 0x6E, 0x67]"

abbreviation txt_thees_chaan :: ustring where
  "txt_thees_chaan \<equiv> [0x74, 0x68, 0x1EBF, 0x20, 0x63, 0x68, 0xE2, 0x6E]"

abbreviation txt_hello_world :: ustring where
  "txt_hello_world \<equiv> [0x68, 0x65, 0x6C, 0x6C, 0x6F, 0x20, 0x77, 0x6F, 0x72, 0x6C, 0x64]"

abbreviation txt_thees_chaan_thaatj :: ustring where
  "txt_thees_chaan_thaatj \<equiv> [0x74, 0x68, 0x1EBF, 0x20, 0x63, 0x68, 0xE2, 0x6E, 0x20, 0x74, 0x68, 0x1EAD, 0x74]"

abbreviation txt_ma_tuys :: ustring where
  "txt_ma_tuys \<equiv> [0x6D, 0x61, 0x20, 0x74, 0xFA, 0x79]"

abbreviation txt_con_caf :: ustring where
  "txt_con_caf \<equiv> [0x63, 0x6F, 0x6E, 0x20, 0x63, 0xE0]"

abbreviation txt_con :: ustring where
  "txt_con \<equiv> [0x63, 0x6F, 0x6E]"

abbreviation txt_caf :: ustring where
  "txt_caf \<equiv> [0x63, 0xE0]"




text \<open>The dictionary of the test suite: five first words with two second words each.\<close>

definition sampleDictionary :: WordDictionary where
  "sampleDictionary =
     [(txt_thees, [txt_chaan, txt_giowis]),
      (txt_chaan, [txt_thaatj, txt_trowif]),
      (txt_trowif, [txt_xanh, txt_ddaats]),
      (txt_xanh, [txt_las, txt_bieecs]),
      (txt_las, [txt_caay, txt_xanh])]"

section \<open>Canonical ordering\<close>

lemma set_insert_mark: "set (insert_mark cc c xs) = insert c (set xs)"
  by (induction xs) auto

lemma set_canonical_order: "set (canonical_order cc xs) = set xs"
  by (induction xs) (auto simp: set_insert_mark)

lemma set_normalize_NFD:
  "set (normalize_NFD R s) = (\<Union>c \<in> set s. set (decomposition R c))"
  by (simp add: normalize_NFD_def set_canonical_order)

lemma ordered_insert_mark:
  "canonically_ordered cc xs \<Longrightarrow> cc c \<noteq> 0 \<Longrightarrow> canonically_ordered cc (insert_mark cc c xs)"
proof (induction cc xs rule: canonically_ordered.induct)
  case (1 cc)
  then show ?case by simp
next
  case (2 cc x)
  then show ?case by auto
next
  case (3 cc x y zs)
  then show ?case by auto
qed

lemma ordered_canonical_order: "canonically_ordered cc (canonical_order cc xs)"
proof (induction xs)
  case Nil
  then show ?case by simp
next
  case (Cons c cs)
  show ?case
  proof (cases "cc c = 0")
    case True
    with Cons show ?thesis by (cases "canonical_order cc cs") auto
  next
    case False
    with Cons show ?thesis by (simp add: ordered_insert_mark)
  qed
qed

lemma ordered_tl: "canonically_ordered cc (x # xs) \<Longrightarrow> canonically_ordered cc xs"
  by (cases xs) auto

lemma canonical_order_ordered: "canonically_ordered cc xs \<Longrightarrow> canonical_order cc xs = xs"
proof (induction xs)
  case Nil
  then show ?case by simp
next
  case (Cons c cs)
  then have "canonical_order cc cs = cs" by (simp add: ordered_tl)
  with Cons.prems show ?case by (cases cs) auto
qed

lemma ordered_skip:
  "canonically_ordered cc (y # ys) \<Longrightarrow> cc a \<le> cc y \<Longrightarrow> canonically_ordered cc (a # ys)"
  by (cases ys) auto

text \<open>Removing marks, but no starter, keeps a text in canonical order.\<close>

lemma ordered_filter_Cons:
  "canonically_ordered cc (a # xs) \<Longrightarrow> \<forall>x \<in> set xs. \<not> p x \<longrightarrow> cc x \<noteq> 0
   \<Longrightarrow> canonically_ordered cc (a # filter p xs)"
proof (induction xs arbitrary: a)
  case Nil
  then show ?case by simp
next
  case (Cons y ys)
  show ?case
  proof (cases "p y")
    case True
    from Cons.prems have "canonically_ordered cc (y # filter p ys)"
      by (intro Cons.IH) auto
    with Cons.prems True show ?thesis by simp
  next
    case False
    with Cons.prems have "cc a \<le> cc y" by auto
    with Cons.prems have "canonically_ordered cc (a # ys)" by (auto intro: ordered_skip)
    with Cons.prems have "canonically_ordered cc (a # filter p ys)"
      by (intro Cons.IH) auto
    with False show ?thesis by simp
  qed
qed

lemma ordered_filter:
  "canonically_ordered cc xs \<Longrightarrow> \<forall>x \<in> set xs. \<not> p x \<longrightarrow> cc x \<noteq> 0
   \<Longrightarrow> canonically_ordered cc (filter p xs)"
proof (induction xs)
  case Nil
  then show ?case by simp
next
  case (Cons y ys)
  show ?case
  proof (cases "p y")
    case True
    with Cons.prems show ?thesis by (simp add: ordered_filter_Cons)
  next
    case False
    with Cons show ?thesis by (simp add: ordered_tl)
  qed
qed

lemma ordered_map:
  "\<forall>x \<in> set xs. cc (r x) = cc x
   \<Longrightarrow> canonically_ordered cc (map r xs) = canonically_ordered cc xs"
  by (induction cc xs rule: canonically_ordered.induct) auto

lemma concat_map_fixed: "\<forall>x \<in> set xs. f x = [x] \<Longrightarrow> concat (map f xs) = xs"
  by (induction xs) auto

section \<open>The normaliser\<close>

lemma NextWordFinder_normalizeVietnamese_eq:
  "NextWordFinder_normalizeVietnamese R text = normalizeVietnamese R text"
  by (simp add: NextWordFinder_normalizeVietnamese_def normalizeVietnamese_def)

text \<open>
  A text that is decomposed, canonically ordered and free of the code points that the
  normaliser removes or replaces is a fixed point.
\<close>

lemma normalizeVietnamese_fixed:
  assumes dec: "\<forall>x \<in> set t. decomposition R x = [x]"
    and ord: "canonically_ordered (combining_class R) t"
    and cd: "\<forall>x \<in> set t. \<not> combining_diacritical x"
    and d1: "0x111 \<notin> set t" and d2: "0x110 \<notin> set t"
  shows "normalizeVietnamese R t = t"
proof -
  from dec have "concat (map (decomposition R) t) = t" by (rule concat_map_fixed)
  with ord have nfd: "normalize_NFD R t = t"
    by (simp add: normalize_NFD_def canonical_order_ordered)
  from cd have flt: "filter (\<lambda>c. \<not> combining_diacritical c) t = t" by (simp add: filter_id_conv)
  from d1 have r1: "replace_all 0x111 0x64 t = t"
    unfolding replace_all_def by (intro map_idI) auto
  from d2 have r2: "replace_all 0x110 0x44 t = t"
    unfolding replace_all_def by (intro map_idI) auto
  show ?thesis by (simp add: normalizeVietnamese_def nfd flt r1 r2)
qed

lemma normalizeVietnamese_idem:
  assumes tabs: "canonical_tables R" and cgj: "0x34F \<notin> set s"
  shows "normalizeVietnamese R (normalizeVietnamese R s) = normalizeVietnamese R s"
proof -
  define cc where "cc = combining_class R"
  define u where "u = normalize_NFD R s"
  define f where "f = filter (\<lambda>c. \<not> combining_diacritical c) u"
  define r :: "codepoint \<Rightarrow> codepoint"
    where "r = (\<lambda>c. if c = 0x111 then 0x64 else if c = 0x110 then 0x44 else c)"
  have t: "normalizeVietnamese R s = map r f"
    by (auto simp: normalizeVietnamese_def replace_all_def f_def u_def r_def)
  have H1: "\<And>c x. x \<in> set (decomposition R c) \<Longrightarrow> decomposition R x = [x]"
    and H2: "\<And>c. combining_diacritical c \<Longrightarrow> c \<noteq> 0x34F \<Longrightarrow> cc c \<noteq> 0"
    and H3: "\<And>c. 0x34F \<in> set (decomposition R c) \<Longrightarrow> c = 0x34F"
    and H4: "decomposition R 0x64 = [0x64]" "decomposition R 0x44 = [0x44]"
      "cc 0x64 = 0" "cc 0x44 = 0" "cc 0x111 = 0" "cc 0x110 = 0"
    using tabs unfolding canonical_tables_def cc_def by blast+
  have u_dec: "decomposition R x = [x]" if "x \<in> set u" for x
    using that H1 by (auto simp: u_def set_normalize_NFD)
  have u_cgj: "0x34F \<notin> set u"
    using cgj H3 by (auto simp: u_def set_normalize_NFD)
  have "canonically_ordered cc u"
    by (simp add: u_def cc_def normalize_NFD_def ordered_canonical_order)
  moreover have "\<forall>x \<in> set u. \<not> \<not> combining_diacritical x \<longrightarrow> cc x \<noteq> 0"
    using H2 u_cgj by auto
  ultimately have "canonically_ordered cc f"
    unfolding f_def by (rule ordered_filter)
  moreover have "\<forall>x \<in> set f. cc (r x) = cc x"
    using H4 by (simp add: r_def)
  ultimately have ord: "canonically_ordered cc (map r f)"
    by (simp add: ordered_map)
  have dec: "\<forall>x \<in> set (map r f). decomposition R x = [x]"
    using u_dec H4 by (auto simp: r_def f_def)
  have cd: "\<forall>x \<in> set (map r f). \<not> combining_diacritical x"
    by (auto simp: r_def f_def combining_diacritical_def)
  have d1: "0x111 \<notin> set (map r f)" and d2: "0x110 \<notin> set (map r f)"
    by (auto simp: r_def)
  from dec ord cd d1 d2 show ?thesis
    unfolding t cc_def by (intro normalizeVietnamese_fixed)
qed

subsection \<open>The tables of the concrete runtime\<close>

lemma decomposition_table_shape:
  "\<forall>(c, d) \<in> set decomposition_table.
     (0xC0 \<le> c \<and> \<not> combining_diacritical c) \<and>
     (\<forall>x \<in> set d. (x < 0xC0 \<or> combining_diacritical x) \<and> x \<noteq> 0x34F)"
  by (simp add: decomposition_table_def combining_diacritical_def)

lemma js_decomposition_undecomposed:
  assumes "x < 0xC0 \<or> combining_diacritical x"
  shows "js_decomposition x = [x]"
proof -
  have "x \<notin> fst ` set decomposition_table"
    using assms decomposition_table_shape by fastforce
  then have "map_of decomposition_table x = None"
    by (simp add: map_of_eq_None_iff)
  then show ?thesis by (simp add: js_decomposition_def)
qed

lemma js_decomposition_cases:
  "js_decomposition c = [c] \<or> (c, js_decomposition c) \<in> set decomposition_table"
  by (auto simp: js_decomposition_def split: option.splits dest: map_of_SomeD)

lemma combining_class_table_nonzero:
  "\<forall>(lo, hi, k) \<in> set combining_class_table. k \<noteq> 0"
  by (simp add: combining_class_table_def)

lemma js_combining_class_nonzero:
  assumes "combining_diacritical c" "c \<noteq> 0x34F"
  shows "js_combining_class c \<noteq> 0"
proof (cases "find (\<lambda>(lo, hi, k). lo \<le> c \<and> c \<le> hi) combining_class_table")
  case None
  with assms show ?thesis by (simp add: js_combining_class_def)
next
  case (Some e)
  then have "e \<in> set combining_class_table"
    by (metis find_Some_iff nth_mem)
  with combining_class_table_nonzero Some assms show ?thesis
    by (auto simp: js_combining_class_def)
qed

lemma canonical_tables_js_runtime: "canonical_tables js_runtime"
proof -
  have H1: "js_decomposition x = [x]" if "x \<in> set (js_decomposition c)" for c x
    using js_decomposition_cases [of c] that decomposition_table_shape
      js_decomposition_undecomposed [of x] by fastforce
  have H3: "c = 0x34F" if "0x34F \<in> set (js_decomposition c)" for c
  proof (cases "js_decomposition c = [c]")
    case True
    with that show ?thesis by simp
  next
    case False
    with js_decomposition_cases [of c]
    have "(c, js_decomposition c) \<in> set decomposition_table" by simp
    with decomposition_table_shape that show ?thesis by fastforce
  qed
  have H4: "js_decomposition 0x64 = [0x64]" "js_decomposition 0x44 = [0x44]"
    by (simp_all add: js_decomposition_undecomposed)
  have H5: "js_combining_class 0x64 = 0" "js_combining_class 0x44 = 0"
     "js_combining_class 0x111 = 0" "js_combining_class 0x110 = 0"
    by (simp_all add: js_combining_class_def combining_diacritical_def)
  show ?thesis
    unfolding canonical_tables_def js_runtime_def
    using H1 H3 H4 H5 js_combining_class_nonzero by simp
qed

subsection \<open>Running the concrete runtime\<close>

lemma table_lookup_map_of: "table_lookup t k = map_of t k"
  by (induction t) auto

lemma listed_iff: "listed xs k \<longleftrightarrow> k \<in> set xs"
  by (induction xs) auto

text \<open>
  The simplifier evaluates a look-up from the front of the table and leaves the rest of the
  table alone.
\<close>

lemma table_lookup_cong [cong]: "k = k' \<Longrightarrow> table_lookup t k = table_lookup t k'"
  by simp

lemma listed_cong [cong]: "k = k' \<Longrightarrow> listed xs k = listed xs k'"
  by simp

lemma lowercase_table_keys: "\<forall>(u, l) \<in> set lowercase_table. 0xC0 \<le> u"
  by (simp add: lowercase_table_def)

lemma js_lower_lookup:
  "js_lower c =
     (if 0x41 \<le> c \<and> c \<le> 0x5A then c + 0x20
      else if c < 0xC0 then c
      else case table_lookup lowercase_table c of None \<Rightarrow> c | Some l \<Rightarrow> l)"
proof (cases "c < 0xC0")
  case True
  then have "c \<notin> fst ` set lowercase_table"
    using lowercase_table_keys by fastforce
  then have "map_of lowercase_table c = None"
    by (simp add: map_of_eq_None_iff)
  with True show ?thesis by (simp add: js_lower_def)
next
  case False
  then show ?thesis by (simp add: js_lower_def table_lookup_map_of)
qed

lemma js_decomposition_lookup:
  "js_decomposition c =
     (if c < 0xC0 then [c]
      else case table_lookup decomposition_table c of None \<Rightarrow> [c] | Some d \<Rightarrow> d)"
  by (simp add: js_decomposition_undecomposed)
     (simp add: js_decomposition_def table_lookup_map_of)

lemma vietnameseRegex_class_lookup:
  "vietnameseRegex_class c =
     (if (0x61 \<le> c \<and> c \<le> 0x7A) \<or> (0x41 \<le> c \<and> c \<le> 0x5A) then True
      else if listed vietnamese_letters c then True
      else isWhiteSpace c)"
  by (auto simp: vietnameseRegex_class_def listed_iff)

lemma js_runtime_sel:
  "toLowerCase js_runtime = map js_lower"
  "decomposition js_runtime = js_decomposition"
  "combining_class js_runtime = js_combining_class"
  by (simp_all add: js_runtime_def)

lemmas js_lower_code = js_lower_lookup [unfolded lowercase_table_def]
lemmas js_decomposition_code = js_decomposition_lookup [unfolded decomposition_table_def]
lemmas vietnameseRegex_class_code = vietnameseRegex_class_lookup [unfolded vietnamese_letters_def]

lemmas js_eval =
  js_runtime_sel js_lower_code js_decomposition_code js_combining_class_def
  combining_class_table_def combining_diacritical_def normalize_NFD_def replace_all_def
  normalizeVietnamese_def NextWordFinder_normalizeVietnamese_def
text \<open>
  The normal form of a well-formed text is well formed, when no decomposition brings in a
  surrogate.
\<close>

lemma well_formed_normalizeVietnamese:
  assumes dec: "\<forall>c. well_formed [c] \<longrightarrow> well_formed (decomposition R c)"
    and wf: "well_formed s"
  shows "well_formed (normalizeVietnamese R s)"
proof -
  have "\<forall>x \<in> set (normalize_NFD R s). \<not> (0xD800 \<le> x \<and> x \<le> 0xDFFF)"
    using dec wf unfolding set_normalize_NFD well_formed_def by fastforce
  then show ?thesis
    unfolding well_formed_def normalizeVietnamese_def replace_all_def by auto
qed

text \<open>ASCII text is a fixed point of the normaliser of the concrete runtime.\<close>

lemma normalizeVietnamese_ascii:
  assumes "\<forall>c \<in> set t. c < 0x80"
  shows "normalizeVietnamese js_runtime t = t"
proof (rule normalizeVietnamese_fixed)
  from assms have "\<forall>x \<in> set t. x < 0xC0" by auto
  then show "\<forall>x \<in> set t. decomposition js_runtime x = [x]"
    by (simp add: js_runtime_sel js_decomposition_undecomposed)
  have "\<forall>x \<in> set t. js_combining_class x = 0"
    using assms by (auto simp: js_combining_class_def combining_diacritical_def)
  then show "canonically_ordered (combining_class js_runtime) t"
    unfolding js_runtime_sel by (induction t rule: induct_list012) auto
  from assms show "\<forall>x \<in> set t. \<not> combining_diacritical x"
    by (auto simp: combining_diacritical_def)
  from assms show "0x111 \<notin> set t" "0x110 \<notin> set t" by auto
qed

text \<open>
  Every accented letter of the Vietnamese alphabet becomes one ASCII letter of the same
  case: the lower-case letter \<open>l\<close> of a pair becomes a lower-case letter \<open>b\<close>, and its
  upper-case partner \<open>u\<close> becomes the upper-case letter of \<open>b\<close>.
\<close>

lemma normalizeVietnamese_keeps_case:
  "\<forall>(u, l) \<in> set lowercase_table.
     \<exists>b. 0x61 \<le> b \<and> b \<le> 0x7A \<and> normalizeVietnamese js_runtime [l] = [b] \<and>
         normalizeVietnamese js_runtime [u] = [b - 0x20]"
  unfolding lowercase_table_def
  apply (simp only: list.set ball_simps prod.case)
  apply (simp add: js_eval)
  done

lemma normalizeVietnamese_dat:
  "normalizeVietnamese js_runtime txt_ddaats = txt_dat"
  "normalizeVietnamese js_runtime txt_DDaats = txt_Dat"
  by (simp_all add: js_eval)

text \<open>
  C3, as the code has it. The normaliser is idempotent on every well-formed text (no
  unpaired surrogate) without U+034F (combining grapheme joiner), for every runtime whose
  tables have the properties \<open>canonical_tables\<close> of the Unicode Character Database; the
  normal form of a well-formed text is well formed again, when no decomposition brings in a
  surrogate. It does not alter letter case: ASCII text is unchanged, and each accented
  Vietnamese letter becomes the ASCII letter of the same case. The text \<open>ddaats\<close>
  becomes \<open>dat\<close>, and \<open>DDaats\<close> becomes \<open>Dat\<close>, with the capital kept.
\<close>

theorem normalizeVietnamese_idempotent_without_joiner:
  "(canonical_tables R \<and> well_formed s \<and> 0x34F \<notin> set s \<longrightarrow>
      normalizeVietnamese R (normalizeVietnamese R s) = normalizeVietnamese R s) \<and>
   ((\<forall>c. well_formed [c] \<longrightarrow> well_formed (decomposition R c)) \<and> well_formed s \<longrightarrow>
      well_formed (normalizeVietnamese R s)) \<and>
   ((\<forall>c \<in> set t. c < 0x80) \<longrightarrow> normalizeVietnamese js_runtime t = t) \<and>
   (\<forall>(u, l) \<in> set lowercase_table.
      \<exists>b. 0x61 \<le> b \<and> b \<le> 0x7A \<and> normalizeVietnamese js_runtime [l] = [b] \<and>
          normalizeVietnamese js_runtime [u] = [b - 0x20]) \<and>
   normalizeVietnamese js_runtime txt_ddaats = txt_dat \<and>
   normalizeVietnamese js_runtime txt_DDaats = txt_Dat"
  using normalizeVietnamese_idem [of R s] well_formed_normalizeVietnamese [of R s]
    normalizeVietnamese_ascii [of t] normalizeVietnamese_keeps_case normalizeVietnamese_dat
  by blast

text \<open>
  At the concrete runtime: its tables have the properties asked for and bring in no
  surrogate, the text \<open>DDaats\<close> is well formed and holds no joiner, and its normal form
  is well formed and a fixed point; the ASCII text \<open>hello\<close> is unchanged; and the pair
  d with stroke of the table of lower-case letters becomes \<open>d\<close> and \<open>D\<close>.
\<close>

theorem normalizeVietnamese_idempotent_witness:
  "canonical_tables js_runtime \<and> well_formed txt_DDaats \<and> 0x34F \<notin> set txt_DDaats \<and>
   normalizeVietnamese js_runtime (normalizeVietnamese js_runtime txt_DDaats) =
     normalizeVietnamese js_runtime txt_DDaats \<and>
   well_formed (normalizeVietnamese js_runtime txt_DDaats) \<and>
   normalizeVietnamese js_runtime txt_hello = txt_hello \<and>
   (0x110, 0x111) \<in> set lowercase_table \<and>
   (\<exists>b. 0x61 \<le> b \<and> b \<le> 0x7A \<and> normalizeVietnamese js_runtime [0x111] = [b] \<and>
        normalizeVietnamese js_runtime [0x110] = [b - 0x20])"
proof -
  have h: "canonical_tables js_runtime \<and> well_formed txt_DDaats \<and> 0x34F \<notin> set txt_DDaats"
    using canonical_tables_js_runtime by (simp add: well_formed_def)
  have d: "\<forall>c. well_formed [c] \<longrightarrow> well_formed (decomposition js_runtime c)"
  proof (intro allI impI)
    fix c :: codepoint
    assume c: "well_formed [c]"
    show "well_formed (decomposition js_runtime c)"
      using js_decomposition_cases [of c] c decomposition_table_shape
      unfolding js_runtime_sel well_formed_def combining_diacritical_def by fastforce
  qed
  have a: "\<forall>c \<in> set txt_hello. c < 0x80" by simp
  have m: "(0x110, 0x111) \<in> set lowercase_table"
    by (simp add: lowercase_table_def)
  from normalizeVietnamese_idempotent_without_joiner [of js_runtime "txt_DDaats" "txt_hello"]
    h d a m
  show ?thesis by blast
qed

text \<open>
  With a joiner the normaliser is not idempotent. In the well-formed text U+0591 U+034F
  U+05B0 the joiner, a starter, keeps the Hebrew accent (class 220) before the point
  (class 10). The first pass removes the joiner, and the second pass then reorders the two
  marks.
\<close>

theorem normalizeVietnamese_not_idempotent:
  "normalizeVietnamese js_runtime (normalizeVietnamese js_runtime [0x591, 0x34F, 0x5B0]) \<noteq>
     normalizeVietnamese js_runtime [0x591, 0x34F, 0x5B0]"
  by (simp add: js_eval)

section \<open>Words of the sample dictionary\<close>

lemma sample_lower:
  "toLowerCase js_runtime txt_thees = txt_thees"
  "toLowerCase js_runtime txt_chaan = txt_chaan"
  "toLowerCase js_runtime txt_giowis = txt_giowis"
  "toLowerCase js_runtime txt_thaatj = txt_thaatj"
  "toLowerCase js_runtime txt_trowif = txt_trowif"
  "toLowerCase js_runtime txt_xanh = txt_xanh"
  "toLowerCase js_runtime txt_ddaats = txt_ddaats"
  "toLowerCase js_runtime txt_las = txt_las"
  "toLowerCase js_runtime txt_bieecs = txt_bieecs"
  "toLowerCase js_runtime txt_caay = txt_caay"
  "toLowerCase js_runtime txt_hello = txt_hello"
  "toLowerCase js_runtime txt_world = txt_world"
  by (simp_all add: js_runtime_sel js_lower_code)

lemma sample_norm:
  "normalizeVietnamese js_runtime txt_thees = txt_the"
  "normalizeVietnamese js_runtime txt_chaan = txt_chan"
  "normalizeVietnamese js_runtime txt_giowis = txt_gioi"
  "normalizeVietnamese js_runtime txt_thaatj = txt_that"
  "normalizeVietnamese js_runtime txt_trowif = txt_troi"
  "normalizeVietnamese js_runtime txt_xanh = txt_xanh"
  "normalizeVietnamese js_runtime txt_ddaats = txt_dat"
  "normalizeVietnamese js_runtime txt_las = txt_la"
  "normalizeVietnamese js_runtime txt_bieecs = txt_biec"
  "normalizeVietnamese js_runtime txt_caay = txt_cay"
  "normalizeVietnamese js_runtime txt_hello = txt_hello"
  "normalizeVietnamese js_runtime txt_world = txt_world"
  by (simp_all add: js_eval)

section \<open>Connections\<close>

text \<open>
  C6. \<open>canConnect a b\<close> holds exactly when the normalised lower-case second word of
  \<open>a\<close> is the normalised lower-case first word of \<open>b\<close>. \<open>validateConnection\<close> is
  valid without a current word; with one it is invalid, with reason \<open>no_connection\<close> and
  the message that quotes the new pair and the current second word, exactly when
  \<open>canConnect\<close> fails, and valid without reason or message otherwise.
\<close>

theorem canConnect_validateConnection:
  "(canConnect R a b \<longleftrightarrow>
      normalizeVietnamese R (toLowerCase R (second a)) =
        normalizeVietnamese R (toLowerCase R (first b))) \<and>
   validateConnection R wc None next = \<lparr> isValid = True, error = None, reason = None \<rparr> \<and>
   (\<not> isValid (validateConnection R wc (Some current) next) \<longleftrightarrow> \<not> canConnect R current next) \<and>
   (reason (validateConnection R wc (Some current) next) = Some no_connection
      \<longleftrightarrow> \<not> canConnect R current next) \<and>
   (\<not> canConnect R current next \<longrightarrow>
      validateConnection R wc (Some current) next =
        \<lparr> isValid = False, error = Some (msg_no_connection next current),
          reason = Some no_connection \<rparr>) \<and>
   (canConnect R current next \<longrightarrow>
      validateConnection R wc (Some current) next =
        \<lparr> isValid = True, error = None, reason = None \<rparr>)"
  by (simp add: canConnect_def validateConnection_def)

text \<open>
  The pairs of the test suite: \<open>thees chaan\<close> connects to \<open>chaan thaatj\<close> and not
  to \<open>xanh las\<close>; the second connection is refused with reason \<open>no_connection\<close>.
\<close>

theorem canConnect_validateConnection_witness:
  "canConnect js_runtime \<lparr> first = txt_thees, second = txt_chaan \<rparr> \<lparr> first = txt_chaan, second = txt_thaatj \<rparr> \<and>
   \<not> canConnect js_runtime \<lparr> first = txt_thees, second = txt_chaan \<rparr> \<lparr> first = txt_xanh, second = txt_las \<rparr> \<and>
   validateConnection js_runtime (WordChecker_constructor js_runtime sampleDictionary)
     (Some \<lparr> first = txt_thees, second = txt_chaan \<rparr>) \<lparr> first = txt_chaan, second = txt_thaatj \<rparr> =
     \<lparr> isValid = True, error = None, reason = None \<rparr> \<and>
   validateConnection js_runtime (WordChecker_constructor js_runtime sampleDictionary)
     (Some \<lparr> first = txt_thees, second = txt_chaan \<rparr>) \<lparr> first = txt_xanh, second = txt_las \<rparr> =
     \<lparr> isValid = False,
       error = Some (msg_no_connection \<lparr> first = txt_xanh, second = txt_las \<rparr>
                 \<lparr> first = txt_thees, second = txt_chaan \<rparr>),
       reason = Some no_connection \<rparr>"
proof -
  let ?cur = "\<lparr> first = txt_thees, second = txt_chaan \<rparr>"
  let ?ok = "\<lparr> first = txt_chaan, second = txt_thaatj \<rparr>"
  let ?bad = "\<lparr> first = txt_xanh, second = txt_las \<rparr>"
  let ?wc = "WordChecker_constructor js_runtime sampleDictionary"
  have c1: "canConnect js_runtime ?cur ?ok"
    using canConnect_validateConnection [of js_runtime ?cur ?ok]
    by (simp add: sample_lower sample_norm)
  have c2: "\<not> canConnect js_runtime ?cur ?bad"
    using canConnect_validateConnection [of js_runtime ?cur ?bad]
    by (simp add: sample_lower sample_norm)
  from c1 c2 canConnect_validateConnection [of js_runtime _ _ ?wc ?ok ?cur]
    canConnect_validateConnection [of js_runtime _ _ ?wc ?bad ?cur]
  show ?thesis by blast
qed

section \<open>Possible next words\<close>

lemma fold_push: "fold (\<lambda>x pairs. pairs @ [g x]) xs acc = acc @ map g xs"
  by (induction xs arbitrary: acc) auto

lemma fold_entries:
  "fold (\<lambda>(firstWord, secondWords) possiblePairs.
           if p firstWord then
             fold (\<lambda>secondWord pairs. pairs @ [g firstWord secondWord]) secondWords possiblePairs
           else possiblePairs) dict acc =
   acc @ concat (map (\<lambda>(key, values). map (g key) values)
                  (filter (\<lambda>(key, values). p key) dict))"
  by (induction dict arbitrary: acc) (auto simp: fold_push)

lemma getPossibleNextWords_eq:
  "getPossibleNextWords R wc endingWord =
     concat (map (\<lambda>(key, values). map (\<lambda>value. \<lparr> first = key, second = value \<rparr>) values)
       (filter (\<lambda>(key, values). normalizeVietnamese R (toLowerCase R key) =
                                   normalizeVietnamese R (toLowerCase R endingWord))
          (dictionary wc)))"
proof -
  have "getPossibleNextWords R wc endingWord =
     [] @ concat (map (\<lambda>(key, values). map (\<lambda>value. \<lparr> first = key, second = value \<rparr>) values)
       (filter (\<lambda>(key, values). normalizeVietnamese R (toLowerCase R key) =
                                   normalizeVietnamese R (toLowerCase R endingWord))
          (dictionary wc)))"
    unfolding getPossibleNextWords_def Let_def by (rule fold_entries)
  then show ?thesis by simp
qed

lemma dictionary_constructor: "dictionary (WordChecker_constructor R dict) = dict"
  by (simp add: WordChecker_constructor_def)

text \<open>
  C7. \<open>getPossibleNextWords\<close> reads the original dictionary of the checker, not the
  normalised index: it keeps, in the order of the dictionary, the entries whose normalised
  lower-case key is the normalised lower-case ending word, and gives for each of them one
  pair per second word, in their order, made of the key and the second word as they stand
  in the dictionary. The constructor stores the dictionary as it was supplied.
\<close>

theorem getPossibleNextWords_scan:
  "getPossibleNextWords R wc endingWord =
     concat (map (\<lambda>(key, values). map (\<lambda>value. \<lparr> first = key, second = value \<rparr>) values)
       (filter (\<lambda>(key, values). normalizeVietnamese R (toLowerCase R key) =
                                   normalizeVietnamese R (toLowerCase R endingWord))
          (dictionary wc))) \<and>
   dictionary (WordChecker_constructor R dict) = dict"
  using getPossibleNextWords_eq [of R wc endingWord] dictionary_constructor [of R dict]
  by (rule conjI)

text \<open>
  In the sample dictionary the words after \<open>CHAN\<close>, in upper case and without the
  accent, are the two pairs of the key \<open>chaan\<close>, spelled as in the dictionary.
\<close>

theorem getPossibleNextWords_scan_witness:
  "getPossibleNextWords js_runtime (WordChecker_constructor js_runtime sampleDictionary) txt_CHAN =
     [\<lparr> first = txt_chaan, second = txt_thaatj \<rparr>, \<lparr> first = txt_chaan, second = txt_trowif \<rparr>]"
proof -
  have "toLowerCase js_runtime txt_CHAN = txt_chan"
    by (simp add: js_runtime_sel js_lower_code)
  moreover have "normalizeVietnamese js_runtime txt_chan = txt_chan"
    by (simp add: normalizeVietnamese_ascii)
  ultimately show ?thesis
    using getPossibleNextWords_scan
      [of js_runtime "WordChecker_constructor js_runtime sampleDictionary" "txt_CHAN" sampleDictionary]
    by (simp add: sampleDictionary_def sample_lower sample_norm)
qed

lemma sample_next_chan:
  "getPossibleNextWords js_runtime
     (wordChecker (NextWordFinder_constructor js_runtime sampleDictionary)) txt_chaan =
     [\<lparr> first = txt_chaan, second = txt_thaatj \<rparr>, \<lparr> first = txt_chaan, second = txt_trowif \<rparr>]"
  by (simp add: getPossibleNextWords_eq NextWordFinder_constructor_def dictionary_constructor
      sampleDictionary_def sample_lower sample_norm)

section \<open>Finding the next word\<close>

lemma first_getPossibleNextWords:
  assumes "w \<in> set (getPossibleNextWords R wc endingWord)"
  shows "normalizeVietnamese R (toLowerCase R (first w)) =
         normalizeVietnamese R (toLowerCase R endingWord)"
  using assms unfolding getPossibleNextWords_eq by auto

lemma inHistory_iff:
  "inHistory R history w \<longleftrightarrow>
     (\<exists>h \<in> set history.
        normalizeVietnamese R (toLowerCase R (first h)) =
          normalizeVietnamese R (toLowerCase R (first w)) \<and>
        normalizeVietnamese R (toLowerCase R (second h)) =
          normalizeVietnamese R (toLowerCase R (second w)))"
  by (simp add: inHistory_def list_ex_iff NextWordFinder_normalizeVietnamese_eq)

text \<open>The drawn index is in range, and every index in range can be drawn.\<close>

lemma random_index_less: "0 < n \<Longrightarrow> random_index r n < n"
  by (simp add: random_index_def)

lemma random_index_any: "i < n \<Longrightarrow> random_index i n = i"
  by (simp add: random_index_def)

lemma findNextWord_cases:
  fixes R f r1 r2 current history
  defines "possibleWords \<equiv> getPossibleNextWords R (wordChecker f) (second current)"
  defines "availableWords \<equiv> filter (\<lambda>w. \<not> inHistory R history w) possibleWords"
  defines "res \<equiv> findNextWord R f r1 r2 (Some current) history"
  shows "possibleWords = [] \<Longrightarrow> res = \<lparr> word = None, found = False, alternatives = None \<rparr>"
    and "possibleWords \<noteq> [] \<Longrightarrow> availableWords = []
         \<Longrightarrow> res = \<lparr> word = None, found = False, alternatives = Some possibleWords \<rparr>"
    and "availableWords \<noteq> []
         \<Longrightarrow> res = \<lparr> word = Some (availableWords ! random_index r1 (length availableWords)),
                     found = True, alternatives = Some (take 5 availableWords) \<rparr>"
  unfolding res_def findNextWord_def Let_def possibleWords_def availableWords_def
  by auto

lemma findNextWord_not_found:
  assumes "filter (\<lambda>w. \<not> inHistory R history w)
             (getPossibleNextWords R (wordChecker f) (second current)) = []"
  shows "word (findNextWord R f r1 r2 (Some current) history) = None"
    and "\<not> found (findNextWord R f r1 r2 (Some current) history)"
  using assms
  by (cases "getPossibleNextWords R (wordChecker f) (second current) = []";
      simp add: findNextWord_cases)+

lemma findNextWord_word:
  assumes "word (findNextWord R f r1 r2 (Some current) history) = Some w"
  shows "w \<in> set (getPossibleNextWords R (wordChecker f) (second current)) \<and>
         \<not> inHistory R history w"
proof -
  let ?P = "getPossibleNextWords R (wordChecker f) (second current)"
  let ?A = "filter (\<lambda>w. \<not> inHistory R history w) ?P"
  have ne: "?A \<noteq> []"
    using assms findNextWord_not_found(1) [of R history f current r1 r2] by auto
  then have "w = ?A ! random_index r1 (length ?A)"
    using assms by (simp add: findNextWord_cases(3))
  moreover from ne have "random_index r1 (length ?A) < length ?A"
    by (simp add: random_index_less)
  ultimately have "w \<in> set ?A" by (metis nth_mem)
  then show ?thesis by simp
qed



lemma sample_inHistory:
  "\<not> inHistory js_runtime [\<lparr> first = txt_chaan, second = txt_thaatj \<rparr>]
       \<lparr> first = txt_chaan, second = txt_trowif \<rparr>"
  "inHistory js_runtime [\<lparr> first = txt_chaan, second = txt_thaatj \<rparr>]
     \<lparr> first = txt_chaan, second = txt_thaatj \<rparr>"
  "inHistory js_runtime
     [\<lparr> first = txt_chaan, second = txt_thaatj \<rparr>, \<lparr> first = txt_chaan, second = txt_trowif \<rparr>]
     \<lparr> first = txt_chaan, second = txt_thaatj \<rparr>"
  "inHistory js_runtime
     [\<lparr> first = txt_chaan, second = txt_thaatj \<rparr>, \<lparr> first = txt_chaan, second = txt_trowif \<rparr>]
     \<lparr> first = txt_chaan, second = txt_trowif \<rparr>"
  by (simp_all add: inHistory_iff sample_lower sample_norm)

lemma sample_findNextWord:
  "findNextWord js_runtime (NextWordFinder_constructor js_runtime sampleDictionary) 0 0
     (Some \<lparr> first = txt_thees, second = txt_chaan \<rparr>) [\<lparr> first = txt_chaan, second = txt_thaatj \<rparr>] =
   \<lparr> word = Some \<lparr> first = txt_chaan, second = txt_trowif \<rparr>, found = True,
     alternatives = Some [\<lparr> first = txt_chaan, second = txt_trowif \<rparr>] \<rparr>"
  by (simp add: findNextWord_def sample_next_chan sample_inHistory random_index_def)


text \<open>
  C9. A word that \<open>findNextWord\<close> finds for a current pair connects to that pair: its
  first word is a key of the dictionary whose normalised lower-case form is that of the
  second word of the current pair.
\<close>

theorem findNextWord_connects:
  "found (findNextWord R f r1 r2 (Some current) history) \<and>
   word (findNextWord R f r1 r2 (Some current) history) = Some w
   \<longrightarrow> canConnect R current w \<and>
       (\<exists>(key, values) \<in> set (dictionary (wordChecker f)).
          first w = key \<and> second w \<in> set values \<and>
          normalizeVietnamese R (toLowerCase R key) =
            normalizeVietnamese R (toLowerCase R (second current)))"
proof
  assume a: "found (findNextWord R f r1 r2 (Some current) history) \<and>
    word (findNextWord R f r1 r2 (Some current) history) = Some w"
  then have w: "w \<in> set (getPossibleNextWords R (wordChecker f) (second current))"
    using findNextWord_word by blast
  then have "canConnect R current w"
    using first_getPossibleNextWords [of w R "wordChecker f" "second current"]
    by (simp add: canConnect_def)
  moreover from w have "\<exists>(key, values) \<in> set (dictionary (wordChecker f)).
          first w = key \<and> second w \<in> set values \<and>
          normalizeVietnamese R (toLowerCase R key) =
            normalizeVietnamese R (toLowerCase R (second current))"
    unfolding getPossibleNextWords_eq by auto
  ultimately show "canConnect R current w \<and>
       (\<exists>(key, values) \<in> set (dictionary (wordChecker f)).
          first w = key \<and> second w \<in> set values \<and>
          normalizeVietnamese R (toLowerCase R key) =
            normalizeVietnamese R (toLowerCase R (second current)))" by blast
qed

text \<open>
  On the sample dictionary the word found after the current pair \<open>thees chaan\<close> of the
  test suite is \<open>chaan trowif\<close>, and it connects.
\<close>

theorem findNextWord_connects_witness:
  "found (findNextWord js_runtime (NextWordFinder_constructor js_runtime sampleDictionary) 0 0
     (Some \<lparr> first = txt_thees, second = txt_chaan \<rparr>) [\<lparr> first = txt_chaan, second = txt_thaatj \<rparr>]) \<and>
   word (findNextWord js_runtime (NextWordFinder_constructor js_runtime sampleDictionary) 0 0
     (Some \<lparr> first = txt_thees, second = txt_chaan \<rparr>) [\<lparr> first = txt_chaan, second = txt_thaatj \<rparr>]) =
     Some \<lparr> first = txt_chaan, second = txt_trowif \<rparr> \<and>
   canConnect js_runtime \<lparr> first = txt_thees, second = txt_chaan \<rparr> \<lparr> first = txt_chaan, second = txt_trowif \<rparr>"
proof -
  let ?f = "NextWordFinder_constructor js_runtime sampleDictionary"
  let ?cur = "\<lparr> first = txt_thees, second = txt_chaan \<rparr>"
  let ?h = "\<lparr> first = txt_chaan, second = txt_thaatj \<rparr>"
  let ?w = "\<lparr> first = txt_chaan, second = txt_trowif \<rparr>"
  have h: "found (findNextWord js_runtime ?f 0 0 (Some ?cur) [?h]) \<and>
    word (findNextWord js_runtime ?f 0 0 (Some ?cur) [?h]) = Some ?w"
    by (simp add: sample_findNextWord)
  with findNextWord_connects [of js_runtime ?f 0 0 ?cur "[?h]" ?w]
  show ?thesis by blast
qed

section \<open>The normalised index\<close>

lemma fold_index:
  "fold (\<lambda>(key, values) m. m(nk key \<mapsto> lv values)) dict m0 =
     m0 ++ map_of (rev (map (\<lambda>(key, values). (nk key, lv values)) dict))"
proof (induction dict arbitrary: m0)
  case Nil
  then show ?case by simp
next
  case (Cons e dict)
  obtain key "values" where e: "e = (key, values)" by (cases e)
  let ?f = "\<lambda>(key, values) m. m(nk key \<mapsto> lv values)"
  let ?g = "\<lambda>(key, values). (nk key, lv values)"
  have "fold ?f (e # dict) m0 = fold ?f dict (m0(nk key \<mapsto> lv values))"
    by (simp add: e)
  also have "\<dots> = m0(nk key \<mapsto> lv values) ++ map_of (rev (map ?g dict))"
    by (rule Cons.IH)
  also have "m0(nk key \<mapsto> lv values) = m0 ++ map_of [(nk key, lv values)]"
    by simp
  also have "\<dots> ++ map_of (rev (map ?g dict)) =
      m0 ++ (map_of [(nk key, lv values)] ++ map_of (rev (map ?g dict)))"
    by (simp only: map_add_assoc)
  also have "map_of [(nk key, lv values)] ++ map_of (rev (map ?g dict)) =
      map_of (rev (map ?g (e # dict)))"
    by (simp only: e list.map rev.simps map_of_append prod.case)
  finally show ?case .
qed

text \<open>
  What the constructor builds: looking a normalised key up in the index gives the lower-case
  second words of the last entry of the dictionary that has this normalised key.
\<close>

lemma normalizedDictionary_constructor:
  "normalizedDictionary (WordChecker_constructor R dict) =
     map_of (rev (map (\<lambda>(key, values).
                        (normalizeVietnamese R (toLowerCase R key), map (toLowerCase R) values))
                   dict))"
  by (simp add: WordChecker_constructor_def fold_index)

text \<open>
  When no two keys of the dictionary have the same normalised lower-case form, the index
  holds the lower-case second words of every key, and every pair of the dictionary is found.
\<close>

lemma normalizedDictionary_distinct:
  assumes dist: "distinct (map (\<lambda>(key, values). normalizeVietnamese R (toLowerCase R key)) dict)"
    and mem: "(k, vs) \<in> set dict"
  shows "normalizedDictionary (WordChecker_constructor R dict)
           (normalizeVietnamese R (toLowerCase R k)) = Some (map (toLowerCase R) vs)"
proof -
  let ?g = "\<lambda>(key, values).
      (normalizeVietnamese R (toLowerCase R key), map (toLowerCase R) values)"
  have "map fst (rev (map ?g dict)) =
      rev (map (\<lambda>(key, values). normalizeVietnamese R (toLowerCase R key)) dict)"
    by (simp add: rev_map case_prod_beta comp_def)
  with dist have "distinct (map fst (rev (map ?g dict)))" by simp
  moreover from mem have
    "(normalizeVietnamese R (toLowerCase R k), map (toLowerCase R) vs) \<in> set (rev (map ?g dict))"
    by force
  ultimately show ?thesis
    unfolding normalizedDictionary_constructor by (rule map_of_is_SomeI)
qed

lemma isWordInDictionary_distinct:
  assumes "distinct (map (\<lambda>(key, values). normalizeVietnamese R (toLowerCase R key)) dict)"
    and "(k, vs) \<in> set dict" and "v \<in> set vs"
  shows "isWordInDictionary R (WordChecker_constructor R dict) k v"
  using normalizedDictionary_distinct [OF assms(1,2)] assms(3)
  by (simp add: isWordInDictionary_def)

text \<open>
  The words of the two entries \<open>ma: tuys\<close> and \<open>mas: hoongf\<close>, whose keys have
  the same normalised form \<open>ma\<close>.
\<close>

lemma collision_lower:
  "toLowerCase js_runtime txt_ma = txt_ma"
  "toLowerCase js_runtime txt_mas = txt_mas"
  "toLowerCase js_runtime txt_tuys = txt_tuys"
  "toLowerCase js_runtime txt_hoongf = txt_hoongf"
  by (simp_all add: js_runtime_sel js_lower_code)

lemma collision_norm:
  "normalizeVietnamese js_runtime txt_ma = txt_ma"
  "normalizeVietnamese js_runtime txt_mas = txt_ma"
  by (simp_all add: js_eval)

text \<open>
  C1 asks the index to hold, for every key, the lower-case second words of that key, and
  to concatenate the second words of keys with the same normalised form. The constructor
  replaces instead: for the dictionary with the entries \<open>ma: tuys\<close> and
  \<open>mas: hoongf\<close>, in this order, both keys become \<open>ma\<close>, and the index holds under
  \<open>ma\<close> the second word \<open>hoongf\<close> of the second entry only.
\<close>

theorem normalizedDictionary_overwrites:
  "normalizeVietnamese js_runtime (toLowerCase js_runtime txt_ma) = txt_ma \<and>
   normalizeVietnamese js_runtime (toLowerCase js_runtime txt_mas) = txt_ma \<and>
   normalizedDictionary
     (WordChecker_constructor js_runtime [(txt_ma, [txt_tuys]), (txt_mas, [txt_hoongf])]) txt_ma =
     Some [txt_hoongf]"
  by (simp add: normalizedDictionary_constructor collision_lower collision_norm)

section \<open>Format validation\<close>

lemmas format_eval =
  validateFormat_def Let_def trim_def split_whitespace_def isWhiteSpace_def
  vietnameseRegex_test_def vietnameseRegex_class_code

lemma sample_formats:
  "validateFormat txt_thees_chaan = Some (txt_thees, txt_chaan)"
  "validateFormat txt_hello_world = Some (txt_hello, txt_world)"
  "validateFormat txt_thees = None"
  "validateFormat txt_thees_chaan_thaatj = None"
  "validateFormat [] = None"
  "validateFormat txt_ma_tuys = Some (txt_ma, txt_tuys)"
  "validateFormat txt_con_caf = Some (txt_con, txt_caf)"
  by (simp_all add: format_eval)

text \<open>A text is trimmed when it neither starts nor ends with white space.\<close>

lemma dropWhile_hd: "dropWhile p xs \<noteq> [] \<Longrightarrow> \<not> p (hd (dropWhile p xs))"
  by (simp add: hd_dropWhile)

lemma dropWhile_snoc: "\<not> p x \<Longrightarrow> dropWhile p (ys @ [x]) = dropWhile p ys @ [x]"
  by (induction ys) auto

lemma dropWhile_fixed: "xs = [] \<or> \<not> p (hd xs) \<Longrightarrow> dropWhile p xs = xs"
  by (cases xs) auto

lemma trim_ends:
  "trim s = [] \<or> (\<not> isWhiteSpace (hd (trim s)) \<and> \<not> isWhiteSpace (last (trim s)))"
proof (cases "dropWhile isWhiteSpace s")
  case Nil
  show ?thesis unfolding trim_def Nil by simp
next
  case (Cons x d)
  then have x: "\<not> isWhiteSpace x"
    using dropWhile_hd [of isWhiteSpace s] by simp
  let ?u = "dropWhile isWhiteSpace (rev d)"
  have t: "trim s = x # rev ?u"
    using Cons x by (simp add: trim_def dropWhile_snoc)
  have "?u = [] \<or> \<not> isWhiteSpace (hd ?u)"
    using dropWhile_hd [of isWhiteSpace "rev d"] by blast
  then have "\<not> isWhiteSpace (last (x # rev ?u))"
    using x by (cases "?u") (auto simp: last_rev)
  with t x show ?thesis by simp
qed

lemma trim_fixed:
  assumes "s = [] \<or> (\<not> isWhiteSpace (hd s) \<and> \<not> isWhiteSpace (last s))"
  shows "trim s = s"
proof (cases "s = []")
  case True
  then show ?thesis by (simp add: trim_def)
next
  case False
  with assms have h: "\<not> isWhiteSpace (hd s)" and l: "\<not> isWhiteSpace (last s)" by auto
  from False h have "dropWhile isWhiteSpace s = s" by (simp add: dropWhile_fixed)
  moreover from False l have "dropWhile isWhiteSpace (rev s) = rev s"
    by (intro dropWhile_fixed) (simp add: hd_rev)
  ultimately show ?thesis by (simp add: trim_def)
qed

lemma trim_idem: "trim (trim s) = trim s"
  using trim_ends [of s] by (rule trim_fixed)

lemma validateFormat_trim: "validateFormat (trim input) = validateFormat input"
  by (simp add: validateFormat_def trim_idem)

text \<open>
  The pieces of a split hold no white space, and together they hold every other code point
  of the text, in order.
\<close>

lemma split_from_tokens:
  "\<forall>c \<in> set tok. \<not> isWhiteSpace c
   \<Longrightarrow> \<forall>w \<in> set (split_from tok s). \<forall>c \<in> set w. \<not> isWhiteSpace c"
proof (induction tok s rule: split_from.induct)
  case (1 tok)
  then show ?case by simp
next
  case (2 tok c cs)
  show ?case
  proof (cases "isWhiteSpace c")
    case True
    have "\<forall>w \<in> set (split_from [] (dropWhile isWhiteSpace cs)). \<forall>c \<in> set w. \<not> isWhiteSpace c"
      by (rule "2.IH"(1) [OF True]) simp
    moreover have "split_from tok (c # cs) = tok # split_from [] (dropWhile isWhiteSpace cs)"
      using True by simp
    ultimately show ?thesis using "2.prems" by (simp only: list.set) blast
  next
    case False
    have "\<forall>x \<in> set (tok @ [c]). \<not> isWhiteSpace x"
      using "2.prems" False by simp
    then have "\<forall>w \<in> set (split_from (tok @ [c]) cs). \<forall>c \<in> set w. \<not> isWhiteSpace c"
      by (rule "2.IH"(2) [OF False])
    moreover have "split_from tok (c # cs) = split_from (tok @ [c]) cs"
      using False by simp
    ultimately show ?thesis by (simp only:)
  qed
qed

lemma filter_dropWhile_not: "filter (\<lambda>c. \<not> p c) (dropWhile p cs) = filter (\<lambda>c. \<not> p c) cs"
  by (induction cs) simp_all

lemma concat_split_from:
  "concat (split_from tok s) = tok @ filter (\<lambda>c. \<not> isWhiteSpace c) s"
proof (induction tok s rule: split_from.induct)
  case (1 tok)
  then show ?case by simp
next
  case (2 tok c cs)
  show ?case
  proof (cases "isWhiteSpace c")
    case True
    with 2 show ?thesis by (simp add: filter_dropWhile_not)
  next
    case False
    with 2 show ?thesis by simp
  qed
qed

lemma words_tokens:
  "\<forall>w \<in> set (filter (\<lambda>word. length word > 0) (split_whitespace s)).
     w \<noteq> [] \<and> (\<forall>c \<in> set w. \<not> isWhiteSpace c)"
  using split_from_tokens [of "[]" s] by (auto simp: split_whitespace_def)

lemma vietnameseRegex_test_iff:
  "vietnameseRegex_test w \<longleftrightarrow> w \<noteq> [] \<and> (\<forall>c \<in> set w. vietnameseRegex_class c)"
  by (simp add: vietnameseRegex_test_def list_all_iff)

lemma validateFormat_None_iff:
  fixes input
  defines "words \<equiv> filter (\<lambda>word. length word > 0) (split_whitespace (trim input))"
  shows "validateFormat input = None \<longleftrightarrow>
     trim input = [] \<or> length words \<noteq> 2 \<or>
     (\<exists>w \<in> set words. \<exists>c \<in> set w. \<not> vietnameseRegex_class c)"
proof (cases "trim input = []")
  case True
  then show ?thesis by (simp add: validateFormat_def)
next
  case ne: False
  show ?thesis
  proof (cases "length words = 2")
    case False
    then have "validateFormat input = None"
      unfolding validateFormat_def Let_def words_def
      by (auto split: list.splits)
    with False show ?thesis by simp
  next
    case True
    then obtain w0 w1 where w: "words = [w0, w1]"
      by (cases words; cases "tl words"; auto)
    have "\<forall>w \<in> set words. w \<noteq> []"
      unfolding words_def by simp
    with w have "w0 \<noteq> [] \<and> w1 \<noteq> []" by simp
    with ne w show ?thesis
      unfolding validateFormat_def Let_def words_def [symmetric]
      by (auto simp: vietnameseRegex_test_iff)
  qed
qed


lemma validateFormat_Some:
  fixes input
  defines "words \<equiv> filter (\<lambda>word. length word > 0) (split_whitespace (trim input))"
  assumes "validateFormat input = Some (w0, w1)"
  shows "words = [w0, w1]"
  using assms(2) unfolding validateFormat_def Let_def words_def
  by (auto split: if_splits list.splits)


lemma vietnamese_letters_ge: "\<forall>c \<in> set vietnamese_letters. 0xE0 \<le> c"
  by (simp add: vietnamese_letters_def)

lemma not_class_ascii:
  assumes "(0x21 \<le> c \<and> c \<le> 0x40) \<or> (0x5B \<le> c \<and> c \<le> 0x60) \<or> (0x7B \<le> c \<and> c \<le> 0x7E)"
  shows "\<not> vietnameseRegex_class c"
proof -
  from assms have "c < 0xE0" by auto
  with vietnamese_letters_ge have "c \<notin> set vietnamese_letters" by fastforce
  moreover from assms have "\<not> isWhiteSpace c" by (auto simp: isWhiteSpace_def)
  ultimately show ?thesis using assms by (auto simp: vietnameseRegex_class_def)
qed


section \<open>Word validation\<close>

text \<open>
  C2 asks that every pair of the dictionary is found by \<open>isWordInDictionary\<close>. For the
  dictionary with the entries \<open>ma: tuys\<close> and \<open>mas: hoongf\<close>, in this order, the pair
  \<open>ma tuys\<close> of the first entry has the right format and is not found, because the
  constructor has replaced the second words of \<open>ma\<close> by those of the second entry:
  \<open>validateWord\<close> answers \<open>word_not_found\<close> for a pair that stands in the dictionary.
\<close>

theorem isWordInDictionary_misses_pair:
  "validateFormat txt_ma_tuys = Some (txt_ma, txt_tuys) \<and>
   \<not> isWordInDictionary js_runtime
       (WordChecker_constructor js_runtime [(txt_ma, [txt_tuys]), (txt_mas, [txt_hoongf])]) txt_ma txt_tuys \<and>
   validateWord js_runtime
     (WordChecker_constructor js_runtime [(txt_ma, [txt_tuys]), (txt_mas, [txt_hoongf])]) txt_ma_tuys {} =
     \<lparr> isValid = False, error = Some (msg_word_not_found txt_ma txt_tuys),
       reason = Some word_not_found \<rparr>"
  by (simp add: validateWord_def isWordInDictionary_def normalizedDictionary_constructor
      sample_formats collision_lower collision_norm)

text \<open>
  The answer for the pair of the first entry, and the index that it was looked up in.
\<close>

theorem isWordInDictionary_misses_pair_witness:
  "reason (validateWord js_runtime
     (WordChecker_constructor js_runtime [(txt_ma, [txt_tuys]), (txt_mas, [txt_hoongf])]) txt_ma_tuys {}) =
     Some word_not_found \<and>
   normalizedDictionary
     (WordChecker_constructor js_runtime [(txt_ma, [txt_tuys]), (txt_mas, [txt_hoongf])])
     (normalizeVietnamese js_runtime (toLowerCase js_runtime txt_ma)) = Some [txt_hoongf]"
  using isWordInDictionary_misses_pair
  by (simp add: normalizedDictionary_constructor collision_lower collision_norm)

lemma sample_index:
  "normalizedDictionary (WordChecker_constructor js_runtime sampleDictionary) txt_the =
     Some [txt_chaan, txt_giowis]"
  "normalizedDictionary (WordChecker_constructor js_runtime sampleDictionary) txt_hello = None"
  by (simp_all add: normalizedDictionary_constructor sampleDictionary_def
      sample_lower sample_norm)

lemma sample_isWordInDictionary:
  "isWordInDictionary js_runtime (WordChecker_constructor js_runtime sampleDictionary)
     txt_thees txt_chaan"
  "\<not> isWordInDictionary js_runtime (WordChecker_constructor js_runtime sampleDictionary)
     txt_hello txt_world"
  by (simp_all add: isWordInDictionary_def sample_index sample_lower sample_norm)

text \<open>
  C4. \<open>validateFormat\<close> works on the trimmed input. It fails exactly when the trimmed
  input is empty, or the non-empty pieces between runs of white space are not exactly two,
  or a piece holds a code point outside the class of \<open>vietnameseRegex\<close>; the pieces are
  non-empty and free of white space, and digits and ASCII punctuation are outside the
  class. A failure of the format makes \<open>validateWord\<close> answer \<open>invalid_format\<close>, and a
  success returns the two pieces. The input \<open>hello world\<close> passes the format, and on the
  sample dictionary \<open>validateWord\<close> answers \<open>word_not_found\<close> for it.
\<close>

theorem validateFormat_invalid_format:
  fixes input
  defines "words \<equiv> filter (\<lambda>word. length word > 0) (split_whitespace (trim input))"
  shows
  "validateFormat (trim input) = validateFormat input \<and>
   (validateFormat input = None \<longleftrightarrow>
      trim input = [] \<or> length words \<noteq> 2 \<or>
      (\<exists>w \<in> set words. \<exists>c \<in> set w. \<not> vietnameseRegex_class c)) \<and>
   (\<forall>w \<in> set words. w \<noteq> [] \<and> (\<forall>c \<in> set w. \<not> isWhiteSpace c)) \<and>
   ((0x21 \<le> c \<and> c \<le> 0x40) \<or> (0x5B \<le> c \<and> c \<le> 0x60) \<or> (0x7B \<le> c \<and> c \<le> 0x7E)
      \<longrightarrow> \<not> vietnameseRegex_class c) \<and>
   (validateFormat input = None \<longrightarrow>
      validateWord R wc input usedWords =
        \<lparr> isValid = False, error = Some msg_invalid_format, reason = Some invalid_format \<rparr>) \<and>
   (validateFormat input \<noteq> None \<longrightarrow>
      validateFormat input = Some (words ! 0, words ! 1) \<and>
      reason (validateWord R wc input usedWords) \<noteq> Some invalid_format) \<and>
   validateFormat txt_hello_world = Some (txt_hello, txt_world) \<and>
   validateWord js_runtime (WordChecker_constructor js_runtime sampleDictionary)
     txt_hello_world {} =
     \<lparr> isValid = False, error = Some (msg_word_not_found txt_hello txt_world),
       reason = Some word_not_found \<rparr>"
proof -
  have 1: "validateFormat input = None \<longleftrightarrow>
      trim input = [] \<or> length words \<noteq> 2 \<or>
      (\<exists>w \<in> set words. \<exists>c \<in> set w. \<not> vietnameseRegex_class c)"
    unfolding words_def by (rule validateFormat_None_iff)
  have 2: "\<forall>w \<in> set words. w \<noteq> [] \<and> (\<forall>c \<in> set w. \<not> isWhiteSpace c)"
    unfolding words_def by (rule words_tokens)
  have 3: "(0x21 \<le> c \<and> c \<le> 0x40) \<or> (0x5B \<le> c \<and> c \<le> 0x60) \<or> (0x7B \<le> c \<and> c \<le> 0x7E)
      \<longrightarrow> \<not> vietnameseRegex_class c"
    using not_class_ascii [of c] by blast
  have 4: "validateFormat input = None \<longrightarrow>
      validateWord R wc input usedWords =
        \<lparr> isValid = False, error = Some msg_invalid_format, reason = Some invalid_format \<rparr>"
    by (simp add: validateWord_def)
  have 5: "validateFormat input \<noteq> None \<longrightarrow>
      validateFormat input = Some (words ! 0, words ! 1) \<and>
      reason (validateWord R wc input usedWords) \<noteq> Some invalid_format"
  proof
    assume "validateFormat input \<noteq> None"
    then obtain w0 w1 where s: "validateFormat input = Some (w0, w1)" by auto
    then have "words = [w0, w1]"
      unfolding words_def by (rule validateFormat_Some)
    with s show "validateFormat input = Some (words ! 0, words ! 1) \<and>
      reason (validateWord R wc input usedWords) \<noteq> Some invalid_format"
      by (simp add: validateWord_def)
  qed
  have 6: "validateWord js_runtime (WordChecker_constructor js_runtime sampleDictionary)
     txt_hello_world {} =
     \<lparr> isValid = False, error = Some (msg_word_not_found txt_hello txt_world),
       reason = Some word_not_found \<rparr>"
    by (simp add: validateWord_def sample_formats sample_isWordInDictionary)
  from 1 2 3 4 5 6 validateFormat_trim [of input] sample_formats(2)
  show ?thesis by blast
qed

text \<open>
  The inputs of the test suite with one word and with three words: the format fails and
  \<open>validateWord\<close> answers \<open>invalid_format\<close> with its message.
\<close>

theorem validateFormat_invalid_format_witness:
  "validateFormat txt_thees = None \<and>
   validateWord js_runtime (WordChecker_constructor js_runtime sampleDictionary) txt_thees {} =
     \<lparr> isValid = False, error = Some msg_invalid_format, reason = Some invalid_format \<rparr> \<and>
   validateFormat txt_thees_chaan_thaatj = None \<and>
   validateWord js_runtime (WordChecker_constructor js_runtime sampleDictionary)
     txt_thees_chaan_thaatj {} =
     \<lparr> isValid = False, error = Some msg_invalid_format, reason = Some invalid_format \<rparr>"
  using validateFormat_invalid_format
      [where input = "txt_thees" and R = js_runtime
         and wc = "WordChecker_constructor js_runtime sampleDictionary" and usedWords = "{}"]
    validateFormat_invalid_format
      [where input = "txt_thees_chaan_thaatj" and R = js_runtime
         and wc = "WordChecker_constructor js_runtime sampleDictionary" and usedWords = "{}"]
    sample_formats(3,4)
  by blast

text \<open>
  The order of the checks of \<open>validateWord\<close>, for any checker: the format, then the
  look-up of \<open>isWordInDictionary\<close> in the index of the checker, then the used words.
\<close>

lemma validateWord_cases:
  "validateFormat input = None \<Longrightarrow>
     validateWord R wc input usedWords =
       \<lparr> isValid = False, error = Some msg_invalid_format, reason = Some invalid_format \<rparr>"
  "validateFormat input = Some (firstWord, secondWord) \<Longrightarrow>
   \<not> isWordInDictionary R wc firstWord secondWord \<Longrightarrow>
     validateWord R wc input usedWords =
       \<lparr> isValid = False, error = Some (msg_word_not_found firstWord secondWord),
         reason = Some word_not_found \<rparr>"
  "validateFormat input = Some (firstWord, secondWord) \<Longrightarrow>
   isWordInDictionary R wc firstWord secondWord \<Longrightarrow>
   wordKey R firstWord secondWord \<in> usedWords \<Longrightarrow>
     validateWord R wc input usedWords =
       \<lparr> isValid = False, error = Some msg_word_used, reason = Some word_used \<rparr>"
  "validateFormat input = Some (firstWord, secondWord) \<Longrightarrow>
   isWordInDictionary R wc firstWord secondWord \<Longrightarrow>
   wordKey R firstWord secondWord \<notin> usedWords \<Longrightarrow>
     validateWord R wc input usedWords = \<lparr> isValid = True, error = None, reason = None \<rparr>"
  by (simp_all add: validateWord_def)

text \<open>
  When no two keys of the dictionary have the same normalised lower-case form, the look-up
  in the index of the constructed checker is membership in the dictionary, up to the case
  and the diacritics of the first word and the case of the second.
\<close>

lemma isWordInDictionary_iff_distinct:
  assumes dist: "distinct (map (\<lambda>(key, values). normalizeVietnamese R (toLowerCase R key)) dict)"
  shows "isWordInDictionary R (WordChecker_constructor R dict) firstWord secondWord \<longleftrightarrow>
     (\<exists>(key, values) \<in> set dict.
        normalizeVietnamese R (toLowerCase R key) =
          normalizeVietnamese R (toLowerCase R firstWord) \<and>
        toLowerCase R secondWord \<in> set (map (toLowerCase R) values))"
proof
  assume "isWordInDictionary R (WordChecker_constructor R dict) firstWord secondWord"
  then obtain ws where
    look: "normalizedDictionary (WordChecker_constructor R dict)
        (normalizeVietnamese R (toLowerCase R firstWord)) = Some ws"
    and mem: "toLowerCase R secondWord \<in> set ws"
    by (auto simp: isWordInDictionary_def split: option.splits)
  from look have "(normalizeVietnamese R (toLowerCase R firstWord), ws) \<in>
      set (rev (map (\<lambda>(key, values).
        (normalizeVietnamese R (toLowerCase R key), map (toLowerCase R) values)) dict))"
    unfolding normalizedDictionary_constructor by (rule map_of_SomeD)
  with mem show "\<exists>(key, values) \<in> set dict.
        normalizeVietnamese R (toLowerCase R key) =
          normalizeVietnamese R (toLowerCase R firstWord) \<and>
        toLowerCase R secondWord \<in> set (map (toLowerCase R) values)"
    by fastforce
next
  assume "\<exists>(key, values) \<in> set dict.
        normalizeVietnamese R (toLowerCase R key) =
          normalizeVietnamese R (toLowerCase R firstWord) \<and>
        toLowerCase R secondWord \<in> set (map (toLowerCase R) values)"
  then obtain k vs where kv: "(k, vs) \<in> set dict"
    and eq: "normalizeVietnamese R (toLowerCase R k) =
          normalizeVietnamese R (toLowerCase R firstWord)"
    and mem: "toLowerCase R secondWord \<in> set (map (toLowerCase R) vs)"
    by auto
  from normalizedDictionary_distinct [OF dist kv] eq mem
  show "isWordInDictionary R (WordChecker_constructor R dict) firstWord secondWord"
    by (simp add: isWordInDictionary_def)
qed

text \<open>
  C5 has \<open>validateWord\<close> answer \<open>word_not_found\<close> for a pair that is absent from the
  dictionary, and valid for a well-formed pair of the dictionary that is not used. For the
  dictionary with the entries \<open>ma: tuys\<close> and \<open>mas: hoongf\<close>, in this order, the input
  \<open>ma tuys\<close> has the right format, its pair is an entry of the dictionary and no word is
  used, and yet the answer is \<open>word_not_found\<close>, not valid: the look-up reads the index,
  in which the second entry has replaced the second words of \<open>ma\<close>. With the first
  entry alone the same input is valid.
\<close>

theorem validateWord_refuses_dictionary_pair:
  "(txt_ma, [txt_tuys]) \<in> set [(txt_ma, [txt_tuys]), (txt_mas, [txt_hoongf])] \<and>
   validateFormat txt_ma_tuys = Some (txt_ma, txt_tuys) \<and>
   wordKey js_runtime txt_ma txt_tuys \<notin> {} \<and>
   validateWord js_runtime
     (WordChecker_constructor js_runtime [(txt_ma, [txt_tuys]), (txt_mas, [txt_hoongf])])
     txt_ma_tuys {} =
     \<lparr> isValid = False, error = Some (msg_word_not_found txt_ma txt_tuys),
       reason = Some word_not_found \<rparr> \<and>
   validateWord js_runtime (WordChecker_constructor js_runtime [(txt_ma, [txt_tuys])])
     txt_ma_tuys {} = \<lparr> isValid = True, error = None, reason = None \<rparr>"
  by (simp add: validateWord_def isWordInDictionary_def normalizedDictionary_constructor
      sample_formats collision_lower collision_norm)

text \<open>
  The answer to \<open>ma tuys\<close> on the dictionary with both entries is not valid, and it is
  valid on the dictionary with the first entry alone.
\<close>

theorem validateWord_refuses_dictionary_pair_witness:
  "\<not> isValid (validateWord js_runtime
     (WordChecker_constructor js_runtime [(txt_ma, [txt_tuys]), (txt_mas, [txt_hoongf])])
     txt_ma_tuys {}) \<and>
   isValid (validateWord js_runtime (WordChecker_constructor js_runtime [(txt_ma, [txt_tuys])])
     txt_ma_tuys {})"
  using validateWord_refuses_dictionary_pair by simp

section \<open>Used words and diacritics\<close>






end
